theory Spec2Isabelle
  imports Complex_Main "HOL-Library.AList"
begin

section \<open>JavaScript values\<close>

text \<open>
  The utilities of \<^verbatim>\<open>src/utils/CloudflareVectorizeUtils.ts\<close> are compiled to JavaScript and
  check the shape of their arguments at run time (\<^verbatim>\<open>typeof\<close>, truthiness,
  \<^verbatim>\<open>Array.isArray\<close>), so their arguments are modelled as untyped JavaScript values.

  \<^item> A number is an exact real, or one of the three special numbers. Rounding to
    IEEE-754 doubles is not modelled; no operation of the file does arithmetic on
    the components of a vector, and the one sum of the file, the index of the loop of
    \<^verbatim>\<open>batchVectors\<close>, is discussed there.
  \<^item> A string is a list of UTF-16 code units; a \<^typ>\<open>char\<close> stands for one code unit
    below 256, so that \<^const>\<open>length\<close> is the \<^verbatim>\<open>.length\<close> of the string.
  \<^item> An object is the list of its own enumerable properties in insertion order, as
    \<^verbatim>\<open>JSON.parse\<close> builds it; the lookup takes the first binding of a key.
  \<^item> \<open>JNative f\<close> is the built-in function named \<open>f\<close>: reading \<^verbatim>\<open>.values\<close> on an
    array gives \<^verbatim>\<open>Array.prototype.values\<close>.
\<close>

datatype jsnum = Fin real | NaN | PosInfinity | NegInfinity

datatype jsval =
    JUndefined
  | JNull
  | JBool bool
  | JNum jsnum
  | JStr string
  | JArr "jsval list"
  | JObj "(string \<times> jsval) list"
  | JFloat32Array "jsnum list"
  | JFloat64Array "jsnum list"
  | JNative string

text \<open>
  What the code throws. \<open>Error msg\<close> is \<^verbatim>\<open>new Error(msg)\<close> and \<open>TypeError msg\<close> the
  \<^verbatim>\<open>TypeError\<close> of the engine; the message of a \<^verbatim>\<open>TypeError\<close> is given in the wording of
  V8, and the properties proved below do not depend on that wording.

  The class \<^verbatim>\<open>NodeOperationError\<close> belongs to the library \<^verbatim>\<open>n8n-workflow\<close>, which is outside
  the repository. Its constructor does not keep every message it is given: it replaces
  a message that holds one of the library's common error codes (such as
  \<^verbatim>\<open>ECONNREFUSED\<close> or \<^verbatim>\<open>ENOTFOUND\<close>) by a description of that code. So two values are kept
  apart:

  \<^item> \<open>NewNodeOperationError msg i\<close> is the error that the expression
    \<^verbatim>\<open>new NodeOperationError(context.getNode(), msg, { itemIndex: i })\<close> of this file
    constructs. \<open>msg\<close> is the argument of the constructor; the message that the
    constructed error carries is decided by the library.
  \<^item> \<open>NodeOperationError msg i\<close> is an error of that class that exists already, thrown by
    the HTTP helper, with the message \<open>msg\<close> it carries.

  A function that may throw returns \<open>jserror + 'a\<close>, the error on the left.
\<close>

datatype jserror =
    Error string
  | TypeError string
  | NodeOperationError string nat
  | NewNodeOperationError string nat


definition bindE :: "'e + 'a \<Rightarrow> ('a \<Rightarrow> 'e + 'b) \<Rightarrow> 'e + 'b" where
  "bindE m f = (case m of Inl e \<Rightarrow> Inl e | Inr x \<Rightarrow> f x)"

text \<open>\<^verbatim>\<open>ToBoolean\<close>: the falsy values are undefined, null, false, 0, NaN and the empty string.\<close>

fun truthy :: "jsval \<Rightarrow> bool" where
  "truthy JUndefined = False"
| "truthy JNull = False"
| "truthy (JBool b) = b"
| "truthy (JNum (Fin r)) = (r \<noteq> 0)"
| "truthy (JNum NaN) = False"
| "truthy (JNum _) = True"
| "truthy (JStr s) = (s \<noteq> [])"
| "truthy _ = True"

fun typeof :: "jsval \<Rightarrow> string" where
  "typeof JUndefined = ''undefined''"
| "typeof (JBool _) = ''boolean''"
| "typeof (JNum _) = ''number''"
| "typeof (JStr _) = ''string''"
| "typeof (JNative _) = ''function''"
| "typeof _ = ''object''"

subsection \<open>Numbers and strings\<close>

definition digit_char :: "nat \<Rightarrow> char" where
  "digit_char d = ''0123456789'' ! d"

fun nat_to_string :: "nat \<Rightarrow> string" where
  "nat_to_string n =
     (if n < 10 then [digit_char n] else nat_to_string (n div 10) @ [digit_char (n mod 10)])"

declare nat_to_string.simps [simp del]

text \<open>
  \<^verbatim>\<open>Number::toString\<close> in radix 10. An integral number below \<open>10^21\<close> prints as its
  digits. Otherwise the number is \<open>s * 10^(n - k)\<close> with \<open>s\<close> of \<open>k\<close> digits and \<open>k\<close>
  least, and prints in positional notation for \<open>-6 < n \<le> 21\<close> and with an exponent
  beyond. \<open>decimal_exponent\<close> looks for the least \<open>e\<close> with \<open>x * 10^e\<close> integral;
  its fuel covers every double (at most 17 digits, exponents down to -324).
\<close>

fun decimal_exponent :: "nat \<Rightarrow> real \<Rightarrow> nat \<Rightarrow> nat" where
  "decimal_exponent 0 x e = e"
| "decimal_exponent (Suc fuel) x e =
     (if frac (x * 10 ^ e) = 0 then e else decimal_exponent fuel x (Suc e))"

fun strip_zeros :: "nat \<Rightarrow> nat \<Rightarrow> nat \<times> nat" where
  "strip_zeros m z =
     (if m = 0 \<or> m mod 10 \<noteq> 0 then (m, z) else strip_zeros (m div 10) (Suc z))"

declare strip_zeros.simps [simp del]

definition positive_to_string :: "real \<Rightarrow> string" where
  "positive_to_string x =
     (if frac x = 0 \<and> x < 10 ^ 21 then nat_to_string (nat \<lfloor>x\<rfloor>)
      else
        let e = decimal_exponent 400 x 0;
            (s, z) = strip_zeros (nat \<lfloor>x * 10 ^ e\<rfloor>) 0;
            digits = nat_to_string s;
            k = int (length digits);
            n = k + int z - int e
        in if 0 < n \<and> n \<le> 21
           then take (nat n) digits @ ''.'' @ drop (nat n) digits
           else if - 6 < n \<and> n \<le> 0
           then ''0.'' @ replicate (nat (- n)) (CHR ''0'') @ digits
           else (if k = 1 then digits else take 1 digits @ ''.'' @ drop 1 digits)
                @ ''e'' @ (if 0 \<le> n - 1 then ''+'' else ''-'') @ nat_to_string (nat \<bar>n - 1\<bar>))"

fun number_to_string :: "jsnum \<Rightarrow> string" where
  "number_to_string NaN = ''NaN''"
| "number_to_string PosInfinity = ''Infinity''"
| "number_to_string NegInfinity = ''-Infinity''"
| "number_to_string (Fin x) =
     (if x = 0 then ''0''
      else if x < 0 then ''-'' @ positive_to_string (- x)
      else positive_to_string x)"

fun join_strings :: "string \<Rightarrow> string list \<Rightarrow> string" where
  "join_strings sep [] = []"
| "join_strings sep [s] = s"
| "join_strings sep (s # t # ss) = s @ sep @ join_strings sep (t # ss)"

text \<open>
  \<^verbatim>\<open>ToString\<close>, which \<^verbatim>\<open>String(v)\<close> and a template literal apply. An array prints its
  elements joined by commas, undefined and null elements as the empty string
  (\<^verbatim>\<open>Array.prototype.join\<close>). A plain object prints as \<^verbatim>\<open>[object Object]\<close>; when it has an
  own property \<^verbatim>\<open>toString\<close> (data, so not callable) the conversion throws.
\<close>

fun to_string :: "jsval \<Rightarrow> jserror + string"
  and join_elements :: "string \<Rightarrow> jsval list \<Rightarrow> jserror + string" where
  "to_string JUndefined = Inr ''undefined''"
| "to_string JNull = Inr ''null''"
| "to_string (JBool b) = Inr (if b then ''true'' else ''false'')"
| "to_string (JNum n) = Inr (number_to_string n)"
| "to_string (JStr s) = Inr s"
| "to_string (JArr xs) = join_elements '','' xs"
| "to_string (JObj ps) =
     (if ''toString'' \<in> fst ` set ps
      then Inl (TypeError ''Cannot convert object to primitive value'')
      else Inr ''[object Object]'')"
| "to_string (JFloat32Array ns) = Inr (join_strings '','' (map number_to_string ns))"
| "to_string (JFloat64Array ns) = Inr (join_strings '','' (map number_to_string ns))"
| "to_string (JNative f) = Inr (''function '' @ f @ ''() { [native code] }'')"
| "join_elements sep [] = Inr []"
| "join_elements sep (x # xs) =
     (case (if x = JUndefined \<or> x = JNull then Inr [] else to_string x) of
        Inl e \<Rightarrow> Inl e
      | Inr s \<Rightarrow>
          if xs = [] then Inr s
          else (case join_elements sep xs of
                  Inl e \<Rightarrow> Inl e
                | Inr r \<Rightarrow> Inr (s @ sep @ r)))"

subsection \<open>Reading properties\<close>

text \<open>
  \<open>get_prop v k\<close> is the read \<^verbatim>\<open>v.k\<close> for the property names this file reads. On
  undefined and null it throws. An object gives its own property (none of the names
  is on \<^verbatim>\<open>Object.prototype\<close>); arrays, typed arrays and strings have \<^verbatim>\<open>length\<close>, arrays
  and typed arrays inherit the function \<^verbatim>\<open>values\<close>, a function has \<^verbatim>\<open>name\<close> and
  \<^verbatim>\<open>length\<close>; every other read is undefined.
\<close>

definition own_prop :: "(string \<times> jsval) list \<Rightarrow> string \<Rightarrow> jsval" where
  "own_prop ps k = (case map_of ps k of None \<Rightarrow> JUndefined | Some v \<Rightarrow> v)"

definition length_value :: "'a list \<Rightarrow> jsval" where
  "length_value xs = JNum (Fin (real (length xs)))"

definition cannot_read :: "string \<Rightarrow> string \<Rightarrow> jserror" where
  "cannot_read what k =
     TypeError (''Cannot read properties of '' @ what @ '' (reading '' @ [CHR 0x27] @ k @ [CHR 0x27] @ '')'')"

fun get_prop :: "jsval \<Rightarrow> string \<Rightarrow> jserror + jsval" where
  "get_prop JUndefined k = Inl (cannot_read ''undefined'' k)"
| "get_prop JNull k = Inl (cannot_read ''null'' k)"
| "get_prop (JObj ps) k = Inr (own_prop ps k)"
| "get_prop (JArr xs) k =
     Inr (if k = ''length'' then length_value xs
          else if k = ''values'' then JNative ''values'' else JUndefined)"
| "get_prop (JFloat32Array ns) k =
     Inr (if k = ''length'' then length_value ns
          else if k = ''values'' then JNative ''values'' else JUndefined)"
| "get_prop (JFloat64Array ns) k =
     Inr (if k = ''length'' then length_value ns
          else if k = ''values'' then JNative ''values'' else JUndefined)"
| "get_prop (JStr s) k = Inr (if k = ''length'' then length_value s else JUndefined)"
| "get_prop (JNative f) k =
     Inr (if k = ''name'' then JStr f
          else if k = ''length'' then JNum (Fin 0) else JUndefined)"
| "get_prop _ k = Inr JUndefined"

text \<open>The optional chain \<^verbatim>\<open>v?.k\<close>.\<close>

definition opt_prop :: "jsval \<Rightarrow> string \<Rightarrow> jserror + jsval" where
  "opt_prop v k = (if v = JUndefined \<or> v = JNull then Inr JUndefined else get_prop v k)"

definition isArray :: "jsval \<Rightarrow> bool" where
  "isArray v = (case v of JArr _ \<Rightarrow> True | _ \<Rightarrow> False)"

definition isFloat32Array :: "jsval \<Rightarrow> bool" where
  "isFloat32Array v = (case v of JFloat32Array _ \<Rightarrow> True | _ \<Rightarrow> False)"

definition isFloat64Array :: "jsval \<Rightarrow> bool" where
  "isFloat64Array v = (case v of JFloat64Array _ \<Rightarrow> True | _ \<Rightarrow> False)"

text \<open>
  The values a \<^verbatim>\<open>for (const x of v)\<close> loop visits; \<open>name\<close> is the text of the
  iterated expression, which V8 quotes when the value is not iterable.
\<close>

fun iterate :: "string \<Rightarrow> jsval \<Rightarrow> jserror + jsval list" where
  "iterate name (JArr xs) = Inr xs"
| "iterate name (JStr s) = Inr (map (\<lambda>c. JStr [c]) s)"
| "iterate name (JFloat32Array ns) = Inr (map JNum ns)"
| "iterate name (JFloat64Array ns) = Inr (map JNum ns)"
| "iterate name _ = Inl (TypeError (name @ '' is not iterable''))"

subsection \<open>Numeric comparison\<close>

text \<open>
  \<^verbatim>\<open>ToNumber\<close>, which the relational operators apply to an operand that is compared
  with a number. A string is read by the grammar of \<^verbatim>\<open>StringNumericLiteral\<close>: white
  space is trimmed, the empty string is 0, then an optionally signed \<^verbatim>\<open>Infinity\<close> or
  decimal literal, or an unsigned binary, octal or hexadecimal literal; anything else
  is NaN. An object or array is first converted to a string.
\<close>

definition is_space :: "char \<Rightarrow> bool" where
  "is_space c = (of_char c \<in> {9, 10, 11, 12, 13, 32, 160 :: nat})"

definition trim :: "string \<Rightarrow> string" where
  "trim s = rev (dropWhile is_space (rev (dropWhile is_space s)))"

definition digit_value :: "char \<Rightarrow> nat option" where
  "digit_value c =
     (let n = of_char c :: nat
      in if 48 \<le> n \<and> n \<le> 57 then Some (n - 48)
         else if 97 \<le> n \<and> n \<le> 102 then Some (n - 87)
         else if 65 \<le> n \<and> n \<le> 70 then Some (n - 55)
         else None)"

definition is_digit :: "nat \<Rightarrow> char \<Rightarrow> bool" where
  "is_digit base c = (case digit_value c of None \<Rightarrow> False | Some d \<Rightarrow> d < base)"

definition digits_value :: "nat \<Rightarrow> string \<Rightarrow> nat" where
  "digits_value base ds = foldl (\<lambda>a c. a * base + the (digit_value c)) 0 ds"

definition all_digits :: "nat \<Rightarrow> string \<Rightarrow> nat option" where
  "all_digits base ds =
     (if ds \<noteq> [] \<and> list_all (is_digit base) ds then Some (digits_value base ds) else None)"

definition exponent_part :: "string \<Rightarrow> int option" where
  "exponent_part s =
     (case s of
        [] \<Rightarrow> Some 0
      | c # t \<Rightarrow>
          if c = CHR ''e'' \<or> c = CHR ''E''
          then (case t of
                  [] \<Rightarrow> None
                | d # u \<Rightarrow>
                    if d = CHR ''+'' then map_option int (all_digits 10 u)
                    else if d = CHR ''-'' then map_option (\<lambda>n. - int n) (all_digits 10 u)
                    else map_option int (all_digits 10 t))
          else None)"

definition unsigned_decimal :: "string \<Rightarrow> real option" where
  "unsigned_decimal s =
     (let ip = takeWhile (is_digit 10) s;
          r = dropWhile (is_digit 10) s;
          fp = (case r of c # t \<Rightarrow> if c = CHR ''.'' then takeWhile (is_digit 10) t else [] | [] \<Rightarrow> []);
          rest = (case r of c # t \<Rightarrow> if c = CHR ''.'' then dropWhile (is_digit 10) t else r | [] \<Rightarrow> [])
      in if ip = [] \<and> fp = [] then None
         else (case exponent_part rest of
                 None \<Rightarrow> None
               | Some ex \<Rightarrow>
                   Some ((real (digits_value 10 ip) + real (digits_value 10 fp) / 10 ^ length fp)
                         * 10 powi ex)))"

definition signed_literal :: "string \<Rightarrow> jsnum" where
  "signed_literal s =
     (if s = ''Infinity'' then PosInfinity
      else case unsigned_decimal s of None \<Rightarrow> NaN | Some x \<Rightarrow> Fin x)"

definition negate :: "jsnum \<Rightarrow> jsnum" where
  "negate n = (case n of Fin x \<Rightarrow> Fin (- x) | PosInfinity \<Rightarrow> NegInfinity
                 | NegInfinity \<Rightarrow> PosInfinity | NaN \<Rightarrow> NaN)"

definition radix_literal :: "nat \<Rightarrow> string \<Rightarrow> jsnum" where
  "radix_literal base ds = (case all_digits base ds of None \<Rightarrow> NaN | Some n \<Rightarrow> Fin (real n))"

definition string_to_number :: "string \<Rightarrow> jsnum" where
  "string_to_number str =
     (let s = trim str
      in if s = [] then Fin 0
         else if take 2 s = ''0x'' \<or> take 2 s = ''0X'' then radix_literal 16 (drop 2 s)
         else if take 2 s = ''0o'' \<or> take 2 s = ''0O'' then radix_literal 8 (drop 2 s)
         else if take 2 s = ''0b'' \<or> take 2 s = ''0B'' then radix_literal 2 (drop 2 s)
         else if hd s = CHR ''+'' then signed_literal (tl s)
         else if hd s = CHR ''-'' then negate (signed_literal (tl s))
         else signed_literal s)"

definition to_number :: "jsval \<Rightarrow> jserror + jsnum" where
  "to_number v =
     (case v of
        JUndefined \<Rightarrow> Inr NaN
      | JNull \<Rightarrow> Inr (Fin 0)
      | JBool b \<Rightarrow> Inr (Fin (if b then 1 else 0))
      | JNum n \<Rightarrow> Inr n
      | JStr s \<Rightarrow> Inr (string_to_number s)
      | _ \<Rightarrow> bindE (to_string v) (\<lambda>s. Inr (string_to_number s)))"

text \<open>\<^verbatim>\<open>v > c\<close> and \<^verbatim>\<open>v < c\<close> for a number literal \<open>c\<close>; a comparison with NaN is false.\<close>

definition js_gt :: "jsval \<Rightarrow> real \<Rightarrow> jserror + bool" where
  "js_gt v c =
     bindE (to_number v)
       (\<lambda>n. Inr (case n of Fin x \<Rightarrow> c < x | PosInfinity \<Rightarrow> True | _ \<Rightarrow> False))"

definition js_lt :: "jsval \<Rightarrow> real \<Rightarrow> jserror + bool" where
  "js_lt v c =
     bindE (to_number v)
       (\<lambda>n. Inr (case n of Fin x \<Rightarrow> x < c | NegInfinity \<Rightarrow> True | _ \<Rightarrow> False))"

section \<open>Index names\<close>

text \<open>
  The test \<^verbatim>\<open>/^[a-z0-9][a-z0-9-]*[a-z0-9]$/.test(indexName)\<close>: one character of
  \<^verbatim>\<open>[a-z0-9]\<close>, any number of \<^verbatim>\<open>[a-z0-9-]\<close>, one character of \<^verbatim>\<open>[a-z0-9]\<close>, anchored
  at both ends (without the \<^verbatim>\<open>m\<close> flag \<^verbatim>\<open>$\<close> is the end of the input).
\<close>

definition lower_alnum :: "char \<Rightarrow> bool" where
  "lower_alnum c = (c \<in> set ''abcdefghijklmnopqrstuvwxyz0123456789'')"

definition lower_alnum_hyphen :: "char \<Rightarrow> bool" where
  "lower_alnum_hyphen c = (lower_alnum c \<or> c = CHR ''-'')"

fun index_name_pattern :: "string \<Rightarrow> bool" where
  "index_name_pattern [] = False"
| "index_name_pattern [c] = False"
| "index_name_pattern (c # cs) =
     (lower_alnum c \<and> list_all lower_alnum_hyphen (butlast cs) \<and> lower_alnum (last cs))"

text \<open>
  \<^verbatim>\<open>validateIndexName\<close> (lines 138-150). The three \<^verbatim>\<open>throw\<close> statements are the three
  \<open>Inl\<close> results; falling off the end is \<open>Inr ()\<close>. After the first test the
  argument is a non-empty string, so the last case of the \<open>case\<close> is never taken.
\<close>

definition validateIndexName :: "jsval \<Rightarrow> jserror + unit" where
  "validateIndexName indexName =
     (if \<not> truthy indexName \<or> typeof indexName \<noteq> ''string''
      then Inl (Error ''Index name is required and must be a string'')
      else case indexName of
        JStr s \<Rightarrow>
          if 63 < length s
          then Inl (Error ''Index name must be 63 characters or less'')
          else if \<not> index_name_pattern s \<and> 1 < length s
          then Inl (Error ''Index name must contain only lowercase letters, numbers, and hyphens, and cannot start or end with a hyphen'')
          else Inr ()
      | _ \<Rightarrow> Inl (Error ''Index name is required and must be a string''))"

section \<open>Vectors\<close>

text \<open>
  The two template literals of \<^verbatim>\<open>validateVectorDimensions\<close>, with the substituted
  parts already converted to strings.
\<close>

definition values_message :: "string \<Rightarrow> string" where
  "values_message vid = ''Vector '' @ vid @ '' must have a 'values' array''"

definition dimensions_message :: "string \<Rightarrow> string \<Rightarrow> string \<Rightarrow> string" where
  "dimensions_message vid n d = ''Vector '' @ vid @ '' has '' @ n @ '' dimensions, expected '' @ d"

text \<open>
  The test on \<^verbatim>\<open>vector.values\<close> that both \<^verbatim>\<open>validateVectorDimensions\<close> (line 121) and
  \<^verbatim>\<open>formatVectors\<close> (line 513) make: the value is falsy, or it is neither an array nor
  a \<^verbatim>\<open>Float32Array\<close> nor a \<^verbatim>\<open>Float64Array\<close>. The elements are not looked at.
\<close>

definition lacks_values_array :: "jsval \<Rightarrow> bool" where
  "lacks_values_array values =
     (\<not> truthy values \<or>
      (\<not> isArray values \<and> \<not> isFloat32Array values \<and> \<not> isFloat64Array values))"

text \<open>
  The body of the loop of \<^verbatim>\<open>validateVectorDimensions\<close> (lines 121-131) for one vector:
  the three tests in the order of the source, each with its \<^verbatim>\<open>throw\<close>.
\<close>

definition check_vector :: "jsval \<Rightarrow> jsval \<Rightarrow> jserror + unit" where
  "check_vector expectedDimensions vector =
     bindE (get_prop vector ''values'') (\<lambda>values.
       if lacks_values_array values
       then bindE (get_prop vector ''id'') (\<lambda>vid.
            bindE (to_string vid) (\<lambda>s. Inl (Error (values_message s))))
       else bindE (get_prop values ''length'') (\<lambda>len.
         if truthy expectedDimensions \<and> len \<noteq> expectedDimensions
         then bindE (get_prop vector ''id'') (\<lambda>vid.
              bindE (to_string vid) (\<lambda>s.
              bindE (to_string len) (\<lambda>n.
              bindE (to_string expectedDimensions) (\<lambda>d.
                Inl (Error (dimensions_message s n d))))))
         else bindE (get_prop vector ''id'') (\<lambda>vid.
              if \<not> truthy vid \<or> typeof vid \<noteq> ''string''
              then Inl (Error ''All vectors must have a valid string ID'')
              else Inr ())))"

fun check_vectors :: "jsval \<Rightarrow> jsval list \<Rightarrow> jserror + unit" where
  "check_vectors expectedDimensions [] = Inr ()"
| "check_vectors expectedDimensions (vector # rest) =
     (case check_vector expectedDimensions vector of
        Inl e \<Rightarrow> Inl e
      | Inr _ \<Rightarrow> check_vectors expectedDimensions rest)"

text \<open>
  \<^verbatim>\<open>validateVectorDimensions(vectors, expectedDimensions?)\<close> (lines 119-133); an omitted
  \<^verbatim>\<open>expectedDimensions\<close> is \<open>JUndefined\<close>.
\<close>

definition validateVectorDimensions :: "jsval \<Rightarrow> jsval \<Rightarrow> jserror + unit" where
  "validateVectorDimensions vectors expectedDimensions =
     bindE (iterate ''vectors'' vectors) (check_vectors expectedDimensions)"

section \<open>The request executor\<close>

record VectorizeConnectionConfig =
  accountId :: string
  apiToken :: string
  apiEndpoint :: string

text \<open>The \<^verbatim>\<open>httpOptions\<close> object handed to the HTTP helper of n8n (lines 43-52).\<close>

record http_request =
  req_method :: string
  req_headers :: "(string \<times> string) list"
  req_url :: string
  req_json :: bool
  req_body :: jsval

text \<open>
  The helper \<^verbatim>\<open>httpRequestWithAuthentication\<close> is outside the repository. Its answer to
  the one request an operation makes is an input of the model: the parsed response
  body, or the value it throws. A thrown value is an instance of one of the error
  classes above, or any other value, read through its properties (an HTTP client
  error is an object with \<^verbatim>\<open>message\<close> and \<^verbatim>\<open>response\<close>).
\<close>

datatype thrown = ThrownError jserror | ThrownValue jsval

datatype http_outcome = Resolved jsval | Rejected thrown

text \<open>
  What an operation does: the requests it issues, in order, and the value it returns
  or the error it throws.
\<close>

record exec_result =
  requests :: "http_request list"
  outcome :: "jserror + jsval"

definition before_request :: "jserror + 'a \<Rightarrow> ('a \<Rightarrow> exec_result) \<Rightarrow> exec_result" where
  "before_request m f =
     (case m of Inl e \<Rightarrow> \<lparr>requests = [], outcome = Inl e\<rparr> | Inr x \<Rightarrow> f x)"

text \<open>
  \<^verbatim>\<open>xs.map(e => e.message).join(', ')\<close> (lines 64 and 85); \<open>callee\<close> is the text of
  \<^verbatim>\<open>xs.map\<close>, which V8 quotes when it is not a function. A typed array maps every
  element to NaN, the number that \<^verbatim>\<open>undefined\<close> converts to.
\<close>

fun messages_of :: "jsval list \<Rightarrow> jserror + jsval list" where
  "messages_of [] = Inr []"
| "messages_of (e # es) =
     (case get_prop e ''message'' of
        Inl err \<Rightarrow> Inl err
      | Inr m \<Rightarrow> (case messages_of es of Inl err \<Rightarrow> Inl err | Inr ms \<Rightarrow> Inr (m # ms)))"

definition map_messages_join :: "string \<Rightarrow> jsval \<Rightarrow> jserror + string" where
  "map_messages_join callee xs =
     (case xs of
        JArr es \<Rightarrow> bindE (messages_of es) (join_elements '', '')
      | JFloat32Array ns \<Rightarrow> Inr (join_strings '', '' (map (\<lambda>_. ''NaN'') ns))
      | JFloat64Array ns \<Rightarrow> Inr (join_strings '', '' (map (\<lambda>_. ''NaN'') ns))
      | JUndefined \<Rightarrow> Inl (cannot_read ''undefined'' ''map'')
      | JNull \<Rightarrow> Inl (cannot_read ''null'' ''map'')
      | _ \<Rightarrow> Inl (TypeError (callee @ '' is not a function'')))"

text \<open>
  The \<^verbatim>\<open>try\<close> block after the response has arrived (lines 61-72): a response whose
  \<^verbatim>\<open>success\<close> is exactly \<^verbatim>\<open>false\<close> throws the \<^verbatim>\<open>NodeOperationError\<close> constructed from
  the joined messages of \<^verbatim>\<open>response.errors || []\<close>; any other response returns
  \<^verbatim>\<open>response.result || response\<close>.
\<close>

definition handle_response :: "nat \<Rightarrow> jsval \<Rightarrow> jserror + jsval" where
  "handle_response itemIndex response =
     bindE (get_prop response ''success'') (\<lambda>success.
       if success = JBool False
       then bindE (get_prop response ''errors'') (\<lambda>e.
            bindE (map_messages_join ''errors.map'' (if truthy e then e else JArr [])) (\<lambda>errorMessages.
              Inl (NewNodeOperationError (''Cloudflare API error: '' @ errorMessages) itemIndex)))
       else bindE (get_prop response ''result'') (\<lambda>result.
              Inr (if truthy result then result else response)))"

text \<open>
  The \<^verbatim>\<open>catch\<close> block for a caught value that is not an error object of the classes
  above (lines 78-99): the message it hands to the constructor of
  \<^verbatim>\<open>NodeOperationError\<close>, or the \<^verbatim>\<open>TypeError\<close> that escapes from the block itself.
\<close>

definition http_error_message :: "jsval \<Rightarrow> jserror + string" where
  "http_error_message error =
     bindE (get_prop error ''response'') (\<lambda>response.
     bindE (opt_prop response ''status'') (\<lambda>status.
       if truthy status
       then bindE (get_prop response ''data'') (\<lambda>data.
            bindE (to_string status) (\<lambda>s.
            bindE (opt_prop data ''errors'') (\<lambda>errors.
            bindE (opt_prop errors ''length'') (\<lambda>len.
            bindE (js_gt len 0) (\<lambda>has_errors.
              if has_errors
              then bindE (map_messages_join ''data.errors.map'' errors) (\<lambda>apiErrors.
                     Inr (''API error: '' @ apiErrors))
              else bindE (opt_prop data ''message'') (\<lambda>message.
                     if truthy message
                     then bindE (to_string message) (\<lambda>m. Inr (''API error: '' @ m))
                     else Inr (''HTTP '' @ s @ '' error'')))))))
       else bindE (get_prop error ''message'') (\<lambda>message.
            bindE (to_string message) (\<lambda>m. Inr (''Request failed: '' @ m)))))"

text \<open>
  The \<^verbatim>\<open>catch\<close> block (lines 73-100). An instance of \<^verbatim>\<open>NodeOperationError\<close>, the one
  thrown in the \<^verbatim>\<open>try\<close> block or one thrown by the helper, is thrown again as it is.
  Another error object has a \<^verbatim>\<open>message\<close> and no \<^verbatim>\<open>response\<close>, so it takes the last
  \<^verbatim>\<open>throw\<close>. Every message built here is handed to the constructor of
  \<^verbatim>\<open>NodeOperationError\<close>.
\<close>

fun catch_block :: "nat \<Rightarrow> thrown \<Rightarrow> jserror" where
  "catch_block itemIndex (ThrownError (NodeOperationError m i)) = NodeOperationError m i"
| "catch_block itemIndex (ThrownError (NewNodeOperationError m i)) = NewNodeOperationError m i"
| "catch_block itemIndex (ThrownError (TypeError m)) =
     NewNodeOperationError (''Request failed: '' @ m) itemIndex"
| "catch_block itemIndex (ThrownError (Error m)) =
     NewNodeOperationError (''Request failed: '' @ m) itemIndex"
| "catch_block itemIndex (ThrownValue v) =
     (case http_error_message v of
        Inl e \<Rightarrow> e
      | Inr m \<Rightarrow> NewNodeOperationError m itemIndex)"

definition request_outcome :: "http_outcome \<Rightarrow> nat \<Rightarrow> jserror + jsval" where
  "request_outcome net itemIndex =
     (case net of
        Resolved response \<Rightarrow>
          (case handle_response itemIndex response of
             Inl e \<Rightarrow> Inl (catch_block itemIndex (ThrownError e))
           | Inr v \<Rightarrow> Inr v)
      | Rejected t \<Rightarrow> Inl (catch_block itemIndex t))"

text \<open>
  \<^verbatim>\<open>executeRequest(context, config, endpoint, method, body, itemIndex)\<close> (lines 33-101).
  \<open>net\<close> is the answer of the HTTP helper; an omitted \<^verbatim>\<open>body\<close> is \<open>JUndefined\<close>.
\<close>

definition executeRequest ::
  "http_outcome \<Rightarrow> VectorizeConnectionConfig \<Rightarrow> string \<Rightarrow> string \<Rightarrow> jsval \<Rightarrow> nat \<Rightarrow> exec_result" where
  "executeRequest net config endpoint method body itemIndex =
     (let url = apiEndpoint config @ ''/accounts/'' @ accountId config @ ''/vectorize/v2/'' @ endpoint;
          httpOptions = \<lparr>req_method = method,
                         req_headers = [(''Authorization'', ''Bearer '' @ apiToken config),
                                        (''Content-Type'', ''application/json'')],
                         req_url = url,
                         req_json = True,
                         req_body = body\<rparr>
      in \<lparr>requests = [httpOptions], outcome = request_outcome net itemIndex\<rparr>)"

section \<open>The operations\<close>

text \<open>
  Each operation validates its arguments, which issues no request when it throws, and
  then calls \<^const>\<open>executeRequest\<close>. The index name and the request are JavaScript
  values; the endpoint is a template literal over the validated index name.
\<close>

definition createIndex ::
  "http_outcome \<Rightarrow> VectorizeConnectionConfig \<Rightarrow> jsval \<Rightarrow> nat \<Rightarrow> exec_result" where
  "createIndex net config request itemIndex =
     before_request (get_prop request ''name'') (\<lambda>name.
     before_request (validateIndexName name) (\<lambda>_.
     before_request (get_prop request ''config'') (\<lambda>cfg.
     before_request (opt_prop cfg ''dimensions'') (\<lambda>dimensions.
     before_request (if \<not> truthy dimensions then Inr True else js_lt dimensions 1) (\<lambda>bad.
       if bad
       then \<lparr>requests = [], outcome = Inl (Error ''Dimensions must be a positive integer'')\<rparr>
       else executeRequest net config ''indexes'' ''POST'' request itemIndex)))))"

definition listIndexes ::
  "http_outcome \<Rightarrow> VectorizeConnectionConfig \<Rightarrow> nat \<Rightarrow> exec_result" where
  "listIndexes net config itemIndex =
     (let r = executeRequest net config ''indexes'' ''GET'' JUndefined itemIndex
      in r\<lparr>outcome :=
             bindE (outcome r) (\<lambda>response.
             bindE (get_prop response ''indexes'') (\<lambda>indexes.
               Inr (if truthy indexes then indexes else response)))\<rparr>)"

definition deleteIndex ::
  "http_outcome \<Rightarrow> VectorizeConnectionConfig \<Rightarrow> jsval \<Rightarrow> nat \<Rightarrow> exec_result" where
  "deleteIndex net config indexName itemIndex =
     before_request (validateIndexName indexName) (\<lambda>_.
     before_request (to_string indexName) (\<lambda>name.
       let r = executeRequest net config (''indexes/'' @ name) ''DELETE'' JUndefined itemIndex
       in r\<lparr>outcome := bindE (outcome r) (\<lambda>_. Inr JUndefined)\<rparr>))"

definition getIndex ::
  "http_outcome \<Rightarrow> VectorizeConnectionConfig \<Rightarrow> jsval \<Rightarrow> nat \<Rightarrow> exec_result" where
  "getIndex net config indexName itemIndex =
     before_request (validateIndexName indexName) (\<lambda>_.
     before_request (to_string indexName) (\<lambda>name.
       executeRequest net config (''indexes/'' @ name) ''GET'' JUndefined itemIndex))"

definition getIndexInfo ::
  "http_outcome \<Rightarrow> VectorizeConnectionConfig \<Rightarrow> jsval \<Rightarrow> nat \<Rightarrow> exec_result" where
  "getIndexInfo net config indexName itemIndex =
     before_request (validateIndexName indexName) (\<lambda>_.
     before_request (to_string indexName) (\<lambda>name.
       executeRequest net config (''indexes/'' @ name @ ''/info'') ''GET'' JUndefined itemIndex))"

text \<open>
  \<^verbatim>\<open>insertVectors\<close> (lines 247-265) and \<^verbatim>\<open>upsertVectors\<close> (lines 267-285) call
  \<^verbatim>\<open>validateVectorDimensions(request.vectors)\<close> with one argument: the expected
  dimensionality is undefined there, and neither operation has a parameter for it.
\<close>

definition insertVectors ::
  "http_outcome \<Rightarrow> VectorizeConnectionConfig \<Rightarrow> jsval \<Rightarrow> jsval \<Rightarrow> nat \<Rightarrow> exec_result" where
  "insertVectors net config indexName request itemIndex =
     before_request (validateIndexName indexName) (\<lambda>_.
     before_request (get_prop request ''vectors'') (\<lambda>vectors.
     before_request (validateVectorDimensions vectors JUndefined) (\<lambda>_.
     before_request (to_string indexName) (\<lambda>name.
       executeRequest net config (''indexes/'' @ name @ ''/insert'') ''POST'' request itemIndex))))"

definition upsertVectors ::
  "http_outcome \<Rightarrow> VectorizeConnectionConfig \<Rightarrow> jsval \<Rightarrow> jsval \<Rightarrow> nat \<Rightarrow> exec_result" where
  "upsertVectors net config indexName request itemIndex =
     before_request (validateIndexName indexName) (\<lambda>_.
     before_request (get_prop request ''vectors'') (\<lambda>vectors.
     before_request (validateVectorDimensions vectors JUndefined) (\<lambda>_.
     before_request (to_string indexName) (\<lambda>name.
       executeRequest net config (''indexes/'' @ name @ ''/upsert'') ''POST'' request itemIndex))))"

definition queryVectors ::
  "http_outcome \<Rightarrow> VectorizeConnectionConfig \<Rightarrow> jsval \<Rightarrow> jsval \<Rightarrow> nat \<Rightarrow> exec_result" where
  "queryVectors net config indexName request itemIndex =
     before_request (validateIndexName indexName) (\<lambda>_.
     before_request (get_prop request ''vector'') (\<lambda>vector.
       if \<not> truthy vector \<or> \<not> isArray vector
       then \<lparr>requests = [], outcome = Inl (Error ''Query vector is required and must be an array'')\<rparr>
       else before_request (to_string indexName) (\<lambda>name.
         executeRequest net config (''indexes/'' @ name @ ''/query'') ''POST'' request itemIndex)))"

text \<open>
  The own enumerable properties that the spread \<^verbatim>\<open>{...v}\<close> copies: those of an object,
  the indexed elements of an array, typed array or string, and none of any other value.
\<close>

definition indexed :: "jsval list \<Rightarrow> (string \<times> jsval) list" where
  "indexed xs = zip (map nat_to_string [0..<length xs]) xs"

definition spread :: "jsval \<Rightarrow> (string \<times> jsval) list" where
  "spread v =
     (case v of
        JObj ps \<Rightarrow> ps
      | JArr xs \<Rightarrow> indexed xs
      | JStr s \<Rightarrow> indexed (map (\<lambda>c. JStr [c]) s)
      | JFloat32Array ns \<Rightarrow> indexed (map JNum ns)
      | JFloat64Array ns \<Rightarrow> indexed (map JNum ns)
      | _ \<Rightarrow> [])"

text \<open>
  \<^verbatim>\<open>queryVectorById\<close> (lines 310-334). The body is the object literal
  \<^verbatim>\<open>{...request, vector: request.id}\<close>: the properties of the request, with \<^verbatim>\<open>vector\<close>
  set to the id (in place when the request has a \<^verbatim>\<open>vector\<close>, at the end otherwise).
\<close>

definition queryVectorById ::
  "http_outcome \<Rightarrow> VectorizeConnectionConfig \<Rightarrow> jsval \<Rightarrow> jsval \<Rightarrow> nat \<Rightarrow> exec_result" where
  "queryVectorById net config indexName request itemIndex =
     before_request (validateIndexName indexName) (\<lambda>_.
     before_request (get_prop request ''id'') (\<lambda>vid.
       if \<not> truthy vid \<or> typeof vid \<noteq> ''string''
       then \<lparr>requests = [], outcome = Inl (Error ''Vector ID is required and must be a string'')\<rparr>
       else before_request (to_string indexName) (\<lambda>name.
         executeRequest net config (''indexes/'' @ name @ ''/query'') ''POST''
           (JObj (AList.update ''vector'' vid (spread request))) itemIndex)))"

definition ids_missing :: "jsval \<Rightarrow> jserror + bool" where
  "ids_missing ids =
     (if \<not> truthy ids \<or> \<not> isArray ids then Inr True
      else bindE (get_prop ids ''length'') (\<lambda>len. Inr (len = JNum (Fin 0))))"

definition getVectorsByIds ::
  "http_outcome \<Rightarrow> VectorizeConnectionConfig \<Rightarrow> jsval \<Rightarrow> jsval \<Rightarrow> nat \<Rightarrow> exec_result" where
  "getVectorsByIds net config indexName request itemIndex =
     before_request (validateIndexName indexName) (\<lambda>_.
     before_request (get_prop request ''ids'') (\<lambda>ids.
     before_request (ids_missing ids) (\<lambda>missing.
       if missing
       then \<lparr>requests = [], outcome = Inl (Error ''Vector IDs are required and must be a non-empty array'')\<rparr>
       else before_request (to_string indexName) (\<lambda>name.
         executeRequest net config (''indexes/'' @ name @ ''/get_by_ids'') ''POST'' request itemIndex))))"

definition deleteVectorsByIds ::
  "http_outcome \<Rightarrow> VectorizeConnectionConfig \<Rightarrow> jsval \<Rightarrow> jsval \<Rightarrow> nat \<Rightarrow> exec_result" where
  "deleteVectorsByIds net config indexName request itemIndex =
     before_request (validateIndexName indexName) (\<lambda>_.
     before_request (get_prop request ''ids'') (\<lambda>ids.
     before_request (ids_missing ids) (\<lambda>missing.
       if missing
       then \<lparr>requests = [], outcome = Inl (Error ''Vector IDs are required and must be a non-empty array'')\<rparr>
       else before_request (to_string indexName) (\<lambda>name.
         executeRequest net config (''indexes/'' @ name @ ''/delete_by_ids'') ''POST'' request itemIndex))))"

definition createMetadataIndex ::
  "http_outcome \<Rightarrow> VectorizeConnectionConfig \<Rightarrow> jsval \<Rightarrow> jsval \<Rightarrow> nat \<Rightarrow> exec_result" where
  "createMetadataIndex net config indexName request itemIndex =
     before_request (validateIndexName indexName) (\<lambda>_.
     before_request (get_prop request ''propertyName'') (\<lambda>propertyName.
       if \<not> truthy propertyName \<or> typeof propertyName \<noteq> ''string''
       then \<lparr>requests = [], outcome = Inl (Error ''Property name is required and must be a string'')\<rparr>
       else before_request (to_string indexName) (\<lambda>name.
         executeRequest net config (''indexes/'' @ name @ ''/metadata_index/create'') ''POST''
           request itemIndex)))"

definition deleteMetadataIndex ::
  "http_outcome \<Rightarrow> VectorizeConnectionConfig \<Rightarrow> jsval \<Rightarrow> jsval \<Rightarrow> nat \<Rightarrow> exec_result" where
  "deleteMetadataIndex net config indexName request itemIndex =
     before_request (validateIndexName indexName) (\<lambda>_.
     before_request (get_prop request ''propertyName'') (\<lambda>propertyName.
       if \<not> truthy propertyName \<or> typeof propertyName \<noteq> ''string''
       then \<lparr>requests = [], outcome = Inl (Error ''Property name is required and must be a string'')\<rparr>
       else before_request (to_string indexName) (\<lambda>name.
         executeRequest net config (''indexes/'' @ name @ ''/metadata_index/delete'') ''POST''
           request itemIndex)))"

definition listMetadataIndexes ::
  "http_outcome \<Rightarrow> VectorizeConnectionConfig \<Rightarrow> jsval \<Rightarrow> nat \<Rightarrow> exec_result" where
  "listMetadataIndexes net config indexName itemIndex =
     before_request (validateIndexName indexName) (\<lambda>_.
     before_request (to_string indexName) (\<lambda>name.
       executeRequest net config (''indexes/'' @ name @ ''/metadata_index/list'') ''GET''
         JUndefined itemIndex))"

text \<open>
  \<^verbatim>\<open>URLSearchParams.toString()\<close>: the \<^verbatim>\<open>application/x-www-form-urlencoded\<close> serialiser.
  Letters, digits and \<^verbatim>\<open>*-._\<close> stand for themselves, a space becomes \<^verbatim>\<open>+\<close>, every other
  code unit becomes the percent-encoded bytes of its UTF-8 form.
\<close>

definition percent :: "nat \<Rightarrow> string" where
  "percent b = [CHR ''%'', ''0123456789ABCDEF'' ! (b div 16), ''0123456789ABCDEF'' ! (b mod 16)]"

definition form_encode_char :: "char \<Rightarrow> string" where
  "form_encode_char c =
     (let n = of_char c :: nat
      in if c \<in> set ''ABCDEFGHIJKLMNOPQRSTUVWXYZabcdefghijklmnopqrstuvwxyz0123456789*-._'' then [c]
         else if n = 32 then ''+''
         else if n < 128 then percent n
         else percent (192 + n div 64) @ percent (128 + n mod 64))"

definition form_urlencoded :: "(string \<times> string) list \<Rightarrow> string" where
  "form_urlencoded params =
     join_strings ''&''
       (map (\<lambda>(k, v). concat (map form_encode_char k) @ ''='' @ concat (map form_encode_char v))
          params)"

text \<open>
  The method call \<^verbatim>\<open>v.toString()\<close> on a truthy value; \<open>callee\<close> is the text V8 quotes
  when an own property \<^verbatim>\<open>toString\<close> of an object hides the method.
\<close>

definition call_toString :: "string \<Rightarrow> jsval \<Rightarrow> jserror + string" where
  "call_toString callee v =
     (case v of
        JObj ps \<Rightarrow>
          if ''toString'' \<in> fst ` set ps
          then Inl (TypeError (callee @ '' is not a function''))
          else Inr ''[object Object]''
      | _ \<Rightarrow> to_string v)"

text \<open>
  \<^verbatim>\<open>listVectors\<close> (lines 448-471); an omitted request takes the default \<^verbatim>\<open>{}\<close> of the
  signature.
\<close>

definition listVectors ::
  "http_outcome \<Rightarrow> VectorizeConnectionConfig \<Rightarrow> jsval \<Rightarrow> jsval \<Rightarrow> nat \<Rightarrow> exec_result" where
  "listVectors net config indexName request0 itemIndex =
     (let request = (if request0 = JUndefined then JObj [] else request0)
      in before_request (validateIndexName indexName) (\<lambda>_.
         before_request (get_prop request ''cursor'') (\<lambda>cursor.
         before_request (if truthy cursor
                         then bindE (to_string cursor) (\<lambda>c. Inr [(''cursor'', c)])
                         else Inr []) (\<lambda>params1.
         before_request (get_prop request ''limit'') (\<lambda>limit.
         before_request (if truthy limit
                         then bindE (call_toString ''request.limit.toString'' limit)
                                (\<lambda>l. Inr (params1 @ [(''limit'', l)]))
                         else Inr params1) (\<lambda>queryParams.
         before_request (to_string indexName) (\<lambda>name.
           executeRequest net config
             (''indexes/'' @ name @ ''/list'' @
                (if form_urlencoded queryParams \<noteq> []
                 then ''?'' @ form_urlencoded queryParams else []))
             ''GET'' JUndefined itemIndex)))))))"

text \<open>\<^verbatim>\<open>describeIndex\<close> (lines 473-481) passes its four arguments on to \<^verbatim>\<open>getIndex\<close>.\<close>

definition describeIndex ::
  "http_outcome \<Rightarrow> VectorizeConnectionConfig \<Rightarrow> jsval \<Rightarrow> nat \<Rightarrow> exec_result" where
  "describeIndex net config indexName itemIndex = getIndex net config indexName itemIndex"

section \<open>Formatting\<close>

text \<open>
  The callback of \<^verbatim>\<open>formatVectors\<close> (lines 505-530) for the element \<open>vector\<close> at
  position \<open>index\<close>. The formatted object has \<^verbatim>\<open>id\<close> and \<^verbatim>\<open>values\<close>, then
  \<^verbatim>\<open>metadata\<close> when the element's is truthy, then \<^verbatim>\<open>namespace\<close>, converted to a string,
  when the element's is truthy.
\<close>

definition index_message :: "nat \<Rightarrow> string \<Rightarrow> string" where
  "index_message index what = ''Vector at index '' @ nat_to_string index @ '' must '' @ what"

definition format_vector :: "nat \<Rightarrow> jsval \<Rightarrow> jserror + jsval" where
  "format_vector index vector =
     (if typeof vector \<noteq> ''object'' \<or> \<not> truthy vector
      then Inl (Error (index_message index ''be an object''))
      else bindE (get_prop vector ''id'') (\<lambda>vid.
        if \<not> truthy vid
        then Inl (Error (index_message index ''have an 'id' field''))
        else bindE (get_prop vector ''values'') (\<lambda>values.
          if lacks_values_array values
          then Inl (Error (index_message index ''have a 'values' array''))
          else bindE (to_string vid) (\<lambda>sid.
               bindE (get_prop vector ''metadata'') (\<lambda>metadata.
               bindE (get_prop vector ''namespace'') (\<lambda>namespace.
                 let formatted = [(''id'', JStr sid), (''values'', values)];
                     formatted1 = (if truthy metadata
                                   then AList.update ''metadata'' metadata formatted
                                   else formatted)
                 in if truthy namespace
                    then bindE (to_string namespace) (\<lambda>ns.
                           Inr (JObj (AList.update ''namespace'' (JStr ns) formatted1)))
                    else Inr (JObj formatted1)))))))"

fun format_each :: "nat \<Rightarrow> jsval list \<Rightarrow> jserror + jsval list" where
  "format_each index [] = Inr []"
| "format_each index (vector # rest) =
     (case format_vector index vector of
        Inl e \<Rightarrow> Inl e
      | Inr f \<Rightarrow>
          (case format_each (Suc index) rest of
             Inl e \<Rightarrow> Inl e
           | Inr fs \<Rightarrow> Inr (f # fs)))"

text \<open>
  \<^verbatim>\<open>formatVectors(vectors)\<close> (lines 503-532) is \<^verbatim>\<open>vectors.map\<close> of the callback. On a
  non-empty typed array the callback throws at the first element, a number; on a
  value without a \<^verbatim>\<open>map\<close> method the call itself throws.
\<close>

definition formatVectors :: "jsval \<Rightarrow> jserror + jsval" where
  "formatVectors vectors =
     (case vectors of
        JArr vs \<Rightarrow> bindE (format_each 0 vs) (\<lambda>fs. Inr (JArr fs))
      | JFloat32Array ns \<Rightarrow>
          if ns = [] then Inr (JFloat32Array []) else Inl (Error (index_message 0 ''be an object''))
      | JFloat64Array ns \<Rightarrow>
          if ns = [] then Inr (JFloat64Array []) else Inl (Error (index_message 0 ''be an object''))
      | JUndefined \<Rightarrow> Inl (cannot_read ''undefined'' ''map'')
      | JNull \<Rightarrow> Inl (cannot_read ''null'' ''map'')
      | _ \<Rightarrow> Inl (TypeError ''vectors.map is not a function''))"

section \<open>Batching\<close>

text \<open>
  The batch size of \<^verbatim>\<open>batchVectors\<close> is a JavaScript number, so it may be an integer, a
  fraction, NaN or an infinity, and so may the index \<open>i\<close> of the loop after
  \<^verbatim>\<open>i += batchSize\<close>. \<open>num_add\<close> is the sum of two numbers and \<open>below_length\<close> is
  \<^verbatim>\<open>i < vectors.length\<close>; a comparison with NaN is false. The sum of two finite numbers is
  their exact sum. The properties below are about integral batch sizes and about the
  batch sizes 0.5 and 1.5 on short lists, where the sum of the doubles is the exact sum:
  doubles add halves and integers below \<open>2^53\<close> exactly, and a sum of integers beyond
  that is rounded to a number that still exceeds the length of any array.
\<close>

fun num_add :: "jsnum \<Rightarrow> jsnum \<Rightarrow> jsnum" where
  "num_add (Fin x) (Fin y) = Fin (x + y)"
| "num_add NaN _ = NaN"
| "num_add _ NaN = NaN"
| "num_add PosInfinity NegInfinity = NaN"
| "num_add NegInfinity PosInfinity = NaN"
| "num_add PosInfinity _ = PosInfinity"
| "num_add _ PosInfinity = PosInfinity"
| "num_add NegInfinity _ = NegInfinity"
| "num_add _ NegInfinity = NegInfinity"

definition below_length :: "jsnum \<Rightarrow> nat \<Rightarrow> bool" where
  "below_length i len =
     (case i of Fin x \<Rightarrow> x < real len | NegInfinity \<Rightarrow> True | _ \<Rightarrow> False)"

text \<open>
  \<^verbatim>\<open>Array.prototype.slice(start, end)\<close>. Each argument is converted by
  \<^verbatim>\<open>ToIntegerOrInfinity\<close>: NaN becomes 0 and a fraction is truncated towards zero. A
  negative index counts from the end, both indices are clamped to the array, and the
  result is empty when the clamped start is not below the clamped end.
\<close>

definition trunc :: "real \<Rightarrow> int" where
  "trunc x = (if x < 0 then \<lceil>x\<rceil> else \<lfloor>x\<rfloor>)"

definition clamp_index :: "nat \<Rightarrow> int \<Rightarrow> nat" where
  "clamp_index len i = (if i < 0 then nat (max (int len + i) 0) else min (nat i) len)"

definition relative_index :: "nat \<Rightarrow> jsnum \<Rightarrow> nat" where
  "relative_index len n =
     (case n of
        Fin x \<Rightarrow> clamp_index len (trunc x)
      | NaN \<Rightarrow> 0
      | PosInfinity \<Rightarrow> len
      | NegInfinity \<Rightarrow> 0)"

definition slice :: "'a list \<Rightarrow> jsnum \<Rightarrow> jsnum \<Rightarrow> 'a list" where
  "slice xs start stop =
     (let k = relative_index (length xs) start; final = relative_index (length xs) stop
      in take (final - k) (drop k xs))"

text \<open>
  \<^verbatim>\<open>batchVectors\<close> (lines 537-545). The \<^verbatim>\<open>for\<close> loop has no bound of its own, so it is a
  partial function: \<open>None\<close> is the loop that never leaves, \<open>Some batches\<close> the returned
  array. The loop state is the index \<open>i\<close> and the array \<open>batches\<close> built so far. An
  omitted batch size (\<open>None\<close>) takes the default of the signature, 1000.
\<close>

partial_function (option) batch_loop ::
  "'a list \<Rightarrow> jsnum \<Rightarrow> jsnum \<Rightarrow> 'a list list \<Rightarrow> 'a list list option" where
  "batch_loop vectors batchSize i batches =
     (if below_length i (length vectors)
      then batch_loop vectors batchSize (num_add i batchSize)
             (batches @ [slice vectors i (num_add i batchSize)])
      else Some batches)"

definition batchVectors :: "'a list \<Rightarrow> jsnum option \<Rightarrow> 'a list list option" where
  "batchVectors vectors batchSize =
     batch_loop vectors (case batchSize of None \<Rightarrow> Fin 1000 | Some n \<Rightarrow> n) (Fin 0) []"

text \<open>
  The partition that the loop builds for a positive integral batch size, as a total
  function: the first \<open>n\<close> elements, then the partition of the rest. The lemmas below show that the
  loop computes it.
\<close>

function chunks :: "nat \<Rightarrow> 'a list \<Rightarrow> 'a list list" where
  "chunks n xs = (if n = 0 \<or> xs = [] then [] else take n xs # chunks n (drop n xs))"
  by pat_completeness auto
termination
  by (relation "measure (\<lambda>(n, xs). length xs)") auto

declare chunks.simps [simp del]

section \<open>Scenarios of the specification\<close>

text \<open>
  The concrete values of the scenarios B, C and D of the specification, and the
  \<^verbatim>\<open>httpOptions\<close> of a POST as \<^const>\<open>executeRequest\<close> builds them.
\<close>

definition example_config :: VectorizeConnectionConfig where
  "example_config = \<lparr>accountId = ''account-1'', apiToken = ''token-1'',
                      apiEndpoint = ''https://api.cloudflare.com/client/v4''\<rparr>"

definition vector_v1 :: "jsval list \<Rightarrow> jsval" where
  "vector_v1 values = JObj [(''id'', JStr ''v1''), (''values'', JArr values)]"

definition insert_request :: "jsval list \<Rightarrow> jsval" where
  "insert_request values = JObj [(''vectors'', JArr [vector_v1 values])]"

definition three_values :: "jsval list" where
  "three_values = [JNum (Fin 0.1), JNum (Fin 0.2), JNum (Fin 0.3)]"

definition two_values :: "jsval list" where
  "two_values = [JNum (Fin 0.1), JNum (Fin 0.2)]"

definition success_envelope :: "jsval \<Rightarrow> jsval" where
  "success_envelope r = JObj [(''success'', JBool True), (''result'', r)]"

definition scenario_C :: jsval where
  "scenario_C = JObj [(''success'', JBool False),
                      (''errors'', JArr [JObj [(''code'', JNum (Fin 1003)),
                                               (''message'', JStr ''index not found'')]])]"

definition post_request :: "VectorizeConnectionConfig \<Rightarrow> string \<Rightarrow> jsval \<Rightarrow> http_request" where
  "post_request config endpoint body =
     \<lparr>req_method = ''POST'',
      req_headers = [(''Authorization'', ''Bearer '' @ apiToken config),
                     (''Content-Type'', ''application/json'')],
      req_url = apiEndpoint config @ ''/accounts/'' @ accountId config @ ''/vectorize/v2/'' @ endpoint,
      req_json = True,
      req_body = body\<rparr>"

section \<open>The checks, stated on the data\<close>

text \<open>
  What \<^const>\<open>validateVectorDimensions\<close> accepts, as predicates on the properties \<open>ps\<close> of
  a vector object: \<^verbatim>\<open>values\<close> is an array or a \<^verbatim>\<open>Float32Array\<close> or \<^verbatim>\<open>Float64Array\<close>
  (whatever its elements are); the expected dimensionality \<open>d\<close> is falsy (omitted, 0 or
  NaN) or is the length of \<^verbatim>\<open>values\<close>; \<^verbatim>\<open>id\<close> is a non-empty string.
\<close>

definition values_ok :: "(string \<times> jsval) list \<Rightarrow> bool" where
  "values_ok ps =
     (case own_prop ps ''values'' of
        JArr _ \<Rightarrow> True | JFloat32Array _ \<Rightarrow> True | JFloat64Array _ \<Rightarrow> True | _ \<Rightarrow> False)"





text \<open>
  What \<^const>\<open>formatVectors\<close> accepts and returns. An element is an object when
  \<^verbatim>\<open>typeof\<close> says so and it is not null. The properties \<open>ps\<close> of an object are
  formattable when \<^verbatim>\<open>id\<close> is truthy, \<^verbatim>\<open>values\<close> is an array or typed array as above, and
  \<^verbatim>\<open>id\<close> and a truthy \<^verbatim>\<open>namespace\<close> convert to strings (a string, number or boolean always
  does). The canonical vector of \<open>ps\<close> has the \<^verbatim>\<open>id\<close> as a string and the \<^verbatim>\<open>values\<close>
  as they are, \<^verbatim>\<open>metadata\<close> exactly when the element's is truthy, and \<^verbatim>\<open>namespace\<close>, as
  a string, exactly when the element's is truthy.
\<close>

definition string_of :: "jsval \<Rightarrow> string" where
  "string_of v = (case to_string v of Inl _ \<Rightarrow> [] | Inr s \<Rightarrow> s)"

definition converts :: "jsval \<Rightarrow> bool" where
  "converts v = (case to_string v of Inl _ \<Rightarrow> False | Inr _ \<Rightarrow> True)"

definition is_object :: "jsval \<Rightarrow> bool" where
  "is_object v = (typeof v = ''object'' \<and> truthy v)"

definition formattable :: "(string \<times> jsval) list \<Rightarrow> bool" where
  "formattable ps =
     (truthy (own_prop ps ''id'') \<and> values_ok ps \<and> converts (own_prop ps ''id'') \<and>
      (if truthy (own_prop ps ''namespace'') then converts (own_prop ps ''namespace'') else True))"

definition canonical_vector :: "(string \<times> jsval) list \<Rightarrow> jsval" where
  "canonical_vector ps =
     JObj ([(''id'', JStr (string_of (own_prop ps ''id''))),
            (''values'', own_prop ps ''values'')]
           @ (if truthy (own_prop ps ''metadata'')
              then [(''metadata'', own_prop ps ''metadata'')] else [])
           @ (if truthy (own_prop ps ''namespace'')
              then [(''namespace'', JStr (string_of (own_prop ps ''namespace'')))] else []))"

text \<open>
  Two runs of an operation agree but for the token when they return the same value
  or throw the same error, and issue the same requests once the \<^verbatim>\<open>Authorization\<close>
  header is taken out of each.
\<close>

definition without_authorization :: "http_request \<Rightarrow> http_request" where
  "without_authorization r = r\<lparr>req_headers := AList.delete ''Authorization'' (req_headers r)\<rparr>"

definition same_but_token :: "exec_result \<Rightarrow> exec_result \<Rightarrow> bool" where
  "same_but_token a b =
     (outcome a = outcome b \<and>
      map without_authorization (requests a) = map without_authorization (requests b))"

section \<open>Basic facts\<close>

lemma bindE_Inl [simp]: "bindE (Inl e) f = Inl e"
  by (simp add: bindE_def)

lemma bindE_Inr [simp]: "bindE (Inr x) f = f x"
  by (simp add: bindE_def)

lemma before_request_Inl [simp]: "before_request (Inl e) f = \<lparr>requests = [], outcome = Inl e\<rparr>"
  by (simp add: before_request_def)

lemma before_request_Inr [simp]: "before_request (Inr x) f = f x"
  by (simp add: before_request_def)

lemma outcome_executeRequest [simp]:
  "outcome (executeRequest net config endpoint method body itemIndex) = request_outcome net itemIndex"
  by (simp add: executeRequest_def)

lemma executeRequest_POST:
  "executeRequest net config endpoint ''POST'' body itemIndex =
     \<lparr>requests = [post_request config endpoint body], outcome = request_outcome net itemIndex\<rparr>"
  by (simp add: executeRequest_def post_request_def)

lemma validate_docs_1: "validateIndexName (JStr ''docs-1'') = Inr ()"
  by (simp add: validateIndexName_def lower_alnum_def lower_alnum_hyphen_def)

lemma request_outcome_success:
  "request_outcome (Resolved (success_envelope r)) itemIndex =
     Inr (if truthy r then r else success_envelope r)"
  by (simp add: request_outcome_def handle_response_def success_envelope_def own_prop_def)



section \<open>Properties of the batcher\<close>

lemma slice_take_drop:
  assumes "0 \<le> i" "i < int (length xs)" "1 \<le> n"
  shows "slice xs (Fin (real_of_int i)) (Fin (real_of_int (i + n))) = take (nat n) (drop (nat i) xs)"
proof -
  have t: "trunc (real_of_int j) = j" for j
    by (simp add: trunc_def)
  have k: "relative_index (length xs) (Fin (real_of_int i)) = nat i"
    using assms by (simp add: relative_index_def clamp_index_def t)
  have f: "relative_index (length xs) (Fin (real_of_int (i + n))) = min (nat (i + n)) (length xs)"
    using assms unfolding relative_index_def jsnum.case t by (simp add: clamp_index_def)
  have "min (nat (i + n)) (length xs) - nat i = min (nat n) (length xs - nat i)"
    using assms by linarith
  moreover have "take (min (nat n) (length xs - nat i)) (drop (nat i) xs)
                   = take (nat n) (drop (nat i) xs)"
    by (cases "nat n \<le> length xs - nat i") (simp_all add: min_def)
  ultimately show ?thesis
    unfolding slice_def k f Let_def by simp
qed

lemma batch_loop_chunks:
  assumes "1 \<le> n"
  shows "0 \<le> i \<Longrightarrow>
         batch_loop xs (Fin (real_of_int n)) (Fin (real_of_int i)) acc =
           Some (acc @ chunks (nat n) (drop (nat i) xs))"
proof (induction "length xs - nat i" arbitrary: i acc rule: less_induct)
  case less
  have add: "num_add (Fin (real_of_int i)) (Fin (real_of_int n)) = Fin (real_of_int (i + n))"
    by simp
  have below: "below_length (Fin (real_of_int i)) (length xs) \<longleftrightarrow> i < int (length xs)"
    unfolding below_length_def jsnum.case by linarith
  show ?case
  proof (cases "i < int (length xs)")
    case True
    have step: "batch_loop xs (Fin (real_of_int n)) (Fin (real_of_int i)) acc =
                batch_loop xs (Fin (real_of_int n)) (Fin (real_of_int (i + n)))
                  (acc @ [slice xs (Fin (real_of_int i)) (Fin (real_of_int (i + n)))])"
      using True below by (subst batch_loop.simps) (simp only: add if_True)
    have dec: "length xs - nat (i + n) < length xs - nat i"
      using True less.prems assms by linarith
    have nonneg: "0 \<le> i + n" using less.prems assms by simp
    have ne: "drop (nat i) xs \<noteq> []" using True less.prems by simp
    have dd: "drop (nat (i + n)) xs = drop (nat n) (drop (nat i) xs)"
      using less.prems assms by (simp add: nat_add_distrib add.commute)
    have "chunks (nat n) (drop (nat i) xs)
            = take (nat n) (drop (nat i) xs) # chunks (nat n) (drop (nat (i + n)) xs)"
      using ne assms by (subst chunks.simps) (simp add: dd)
    then show ?thesis
      using less.hyps [OF dec nonneg] slice_take_drop [OF less.prems True assms]
      unfolding step by simp
  next
    case False
    then have "drop (nat i) xs = []" using less.prems by simp
    then show ?thesis using False below
      by (subst batch_loop.simps) (simp add: chunks.simps)
  qed
qed

lemma concat_chunks: "0 < n \<Longrightarrow> concat (chunks n xs) = xs"
  by (induction n xs rule: chunks.induct) (subst chunks.simps, simp)

lemma chunks_length_le: "b \<in> set (chunks n xs) \<Longrightarrow> length b \<le> n"
  by (induction n xs rule: chunks.induct) (subst (asm) chunks.simps, auto split: if_splits)

lemma length_chunks: "0 < n \<Longrightarrow> length (chunks n xs) = (length xs + n - 1) div n"
proof (induction n xs rule: chunks.induct)
  case (1 n xs)
  show ?case
  proof (cases "xs = []")
    case True
    then show ?thesis using "1.prems" by (subst chunks.simps) simp
  next
    case False
    have "length (chunks n xs) = Suc (length (chunks n (drop n xs)))"
      using False "1.prems" by (subst chunks.simps) simp
    also have "\<dots> = Suc ((length xs - n + n - 1) div n)"
      using "1.IH" False "1.prems" by simp
    also have "\<dots> = (length xs + n - 1) div n"
    proof (cases "n \<le> length xs")
      case True
      then have e: "length xs + n - 1 = (length xs - 1) + n" "length xs - n + n - 1 = length xs - 1"
        using "1.prems" by simp_all
      have "(length xs - 1 + n) div n = Suc ((length xs - 1) div n)"
        using "1.prems" by simp
      then show ?thesis unfolding e by simp
    next
      case False2: False
      then have a: "length xs - n + n - 1 = n - 1" by simp
      have "0 < length xs" using False by simp
      then have b: "length xs + n - 1 = (length xs - 1) + n" by linarith
      have "(length xs - 1 + n) div n = Suc ((length xs - 1) div n)"
        using "1.prems" by simp
      moreover have "(length xs - 1) div n = 0"
        using False2 by simp
      ultimately show ?thesis using a "1.prems" unfolding b by simp
    qed
    finally show ?thesis .
  qed
qed

lemma ceiling_divide_nat:
  assumes "0 < n"
  shows "\<lceil>real m / real n\<rceil> = int ((m + n - 1) div n)"
proof (rule ceiling_unique)
  let ?q = "(m + n - 1) div n"
  have dm: "m + n - 1 = ?q * n + (m + n - 1) mod n" by simp
  have r: "(m + n - 1) mod n < n" using assms by simp
  have up: "m \<le> ?q * n" using dm r assms by linarith
  have lo: "?q * n < m + n" using dm assms by linarith
  have "real (?q * n) < real (m + n)" using lo by (rule less_imp_of_nat_less)
  then have "(real ?q - 1) * real n < real m" by (simp add: algebra_simps)
  then show "real_of_int (int ?q) - 1 < real m / real n"
    using assms by (simp add: pos_less_divide_eq)
  have "real m \<le> real (?q * n)" using up by (rule of_nat_mono)
  then have "real m \<le> real ?q * real n" by simp
  then show "real m / real n \<le> real_of_int (int ?q)"
    using assms by (simp add: pos_divide_le_eq)
qed

lemma batch_loop_Some_imp:
  "batch_loop xs bs i acc = Some y \<Longrightarrow>
     \<forall>b x. bs = Fin b \<longrightarrow> b \<le> 0 \<longrightarrow> i = Fin x \<longrightarrow> \<not> x < real (length xs)"
proof (erule batch_loop.raw_induct [rotated], intro allI impI)
  fix f :: "'a list \<Rightarrow> jsnum \<Rightarrow> jsnum \<Rightarrow> 'a list list \<Rightarrow> 'a list list option"
  fix vectors batchSize i batches y b x
  assume IH: "\<And>v s j bs z. f v s j bs = Some z \<Longrightarrow>
                \<forall>b x. s = Fin b \<longrightarrow> b \<le> 0 \<longrightarrow> j = Fin x \<longrightarrow> \<not> x < real (length v)"
    and body: "(if below_length i (length vectors)
                then f vectors batchSize (num_add i batchSize)
                       (batches @ [slice vectors i (num_add i batchSize)])
                else Some batches) = Some y"
    and size: "batchSize = Fin b" and neg: "b \<le> 0" and index: "i = Fin x"
  show "\<not> x < real (length vectors)"
  proof
    assume lt: "x < real (length vectors)"
    then have "below_length i (length vectors)"
      by (simp add: below_length_def index)
    with body have "f vectors batchSize (num_add i batchSize)
                      (batches @ [slice vectors i (num_add i batchSize)]) = Some y"
      by simp
    from IH [OF this] size neg index have "\<not> x + b < real (length vectors)"
      by simp
    with lt neg show False by simp
  qed
qed

lemma batch_loop_diverges:
  "b \<le> 0 \<Longrightarrow> x < real (length xs) \<Longrightarrow> batch_loop xs (Fin b) (Fin x) acc = None"
  using batch_loop_Some_imp [of xs "Fin b" "Fin x" acc]
  by (cases "batch_loop xs (Fin b) (Fin x) acc") auto

lemma batchVectors_chunks:
  "1 \<le> n \<Longrightarrow> batchVectors v (Some (Fin (real_of_int n))) = Some (chunks (nat n) v)"
  using batch_loop_chunks [of n 0 v "[]"] by (simp add: batchVectors_def)

lemma batchVectors_empty: "batchVectors [] (Some n) = Some []"
  by (simp add: batchVectors_def batch_loop.simps below_length_def)

lemma batchVectors_diverges:
  "n \<le> 0 \<Longrightarrow> v \<noteq> [] \<Longrightarrow> batchVectors v (Some (Fin (real_of_int n))) = None"
  by (simp add: batchVectors_def batch_loop_diverges)

text \<open>
  C6, as amended. For every list \<open>v\<close> and every integral batch size \<open>n\<close> of at least 1,
  \<^verbatim>\<open>batchVectors(v, n)\<close> returns chunks whose concatenation, in order, is \<open>v\<close>; every
  chunk has at most \<open>n\<close> elements; there are \<open>ceil(len(v) / n)\<close> chunks; and an omitted
  batch size is the batch size 1000.
\<close>

theorem batchVectors_partition:
  assumes "1 \<le> n"
  shows "batchVectors v None = batchVectors v (Some (Fin 1000)) \<and>
         (\<exists>batches. batchVectors v (Some (Fin (real_of_int n))) = Some batches \<and>
            concat batches = v \<and>
            (\<forall>b \<in> set batches. int (length b) \<le> n) \<and>
            int (length batches) = \<lceil>real (length v) / real_of_int n\<rceil>)"
proof -
  have pos: "0 < nat n" using assms by simp
  have "\<lceil>real (length v) / real (nat n)\<rceil> = int ((length v + nat n - 1) div nat n)"
    using pos by (rule ceiling_divide_nat)
  moreover have "real (nat n) = real_of_int n" using assms by simp
  ultimately have count: "int (length (chunks (nat n) v)) = \<lceil>real (length v) / real_of_int n\<rceil>"
    using length_chunks [OF pos, of v] by simp
  have bound: "\<forall>b \<in> set (chunks (nat n) v). int (length b) \<le> n"
  proof
    fix b assume "b \<in> set (chunks (nat n) v)"
    then have "length b \<le> nat n" by (rule chunks_length_le)
    then show "int (length b) \<le> n" using assms by linarith
  qed
  have "batchVectors v None = batchVectors v (Some (Fin 1000))"
    by (simp add: batchVectors_def)
  then show ?thesis
    using batchVectors_chunks [OF assms, of v] concat_chunks [OF pos, of v] bound count
    by blast
qed

theorem batchVectors_partition_witness:
  "(1::int) \<le> 2 \<and>
   (\<exists>batches. batchVectors [JStr ''a'', JStr ''b'', JStr ''c''] (Some (Fin 2)) = Some batches \<and>
      concat batches = [JStr ''a'', JStr ''b'', JStr ''c''] \<and>
      int (length batches) = 2)"
proof -
  have h: "(1::int) \<le> 2" by simp
  have "\<lceil>real (length [JStr ''a'', JStr ''b'', JStr ''c'']) / real_of_int 2\<rceil> = 2"
    by (simp add: ceiling_eq_iff)
  then show ?thesis
    using h batchVectors_partition [OF h, of "[JStr ''a'', JStr ''b'', JStr ''c'']"] by auto
qed

text \<open>
  C6 as stated fails at two batch sizes. At the batch size 0 the loop never leaves on
  a list of one vector, so no partition is returned. At the batch size 1.5 the list
  \<^verbatim>\<open>["a", "b", "c"]\<close> is cut into \<^verbatim>\<open>["a"]\<close> and \<^verbatim>\<open>["b", "c"]\<close>: the second chunk has 2
  elements, more than the batch size.
\<close>

theorem batchVectors_zero_counterexample:
  "batchVectors [JObj [(''id'', JStr ''v1''), (''values'', JArr [JNum (Fin 1)])]] (Some (Fin 0)) = None \<and>
   batchVectors [JStr ''a'', JStr ''b'', JStr ''c''] (Some (Fin (3 / 2))) =
     Some [[JStr ''a''], [JStr ''b'', JStr ''c'']]"
proof
  show "batchVectors [JObj [(''id'', JStr ''v1''), (''values'', JArr [JNum (Fin 1)])]] (Some (Fin 0)) = None"
    by (simp add: batchVectors_def batch_loop_diverges)
  show "batchVectors [JStr ''a'', JStr ''b'', JStr ''c''] (Some (Fin (3 / 2))) =
          Some [[JStr ''a''], [JStr ''b'', JStr ''c'']]"
    by (simp add: batchVectors_def batch_loop.simps below_length_def slice_def relative_index_def
        clamp_index_def trunc_def)
qed

text \<open>
  C10, as amended. For every list \<open>v\<close> and every integral batch size \<open>n\<close>,
  \<^verbatim>\<open>batchVectors(v, n)\<close> returns if and only if \<open>n\<close> is at least 1 or \<open>v\<close> is empty; with
  the default batch size it always returns.
\<close>

theorem batchVectors_returns_iff:
  "((\<exists>batches. batchVectors v (Some (Fin (real_of_int n))) = Some batches) \<longleftrightarrow> (1 \<le> n \<or> v = [])) \<and>
   (\<exists>batches. batchVectors v None = Some batches)"
proof -
  have none: "batchVectors v (Some (Fin (real_of_int n))) = None" if "\<not> 1 \<le> n" "v \<noteq> []"
    using that by (simp add: batchVectors_diverges)
  have pos: "\<exists>batches. batchVectors v (Some (Fin (real_of_int n))) = Some batches" if "1 \<le> n"
    using batchVectors_chunks [OF that] by blast
  have empty: "\<exists>batches. batchVectors v (Some (Fin (real_of_int n))) = Some batches" if "v = []"
    using that batchVectors_empty by blast
  have default: "\<exists>batches. batchVectors v None = Some batches"
    using batchVectors_chunks [of 1000 v] by (simp add: batchVectors_def)
  have "(\<exists>batches. batchVectors v (Some (Fin (real_of_int n))) = Some batches) \<longleftrightarrow> (1 \<le> n \<or> v = [])"
  proof
    assume "\<exists>batches. batchVectors v (Some (Fin (real_of_int n))) = Some batches"
    then show "1 \<le> n \<or> v = []" using none by fastforce
  next
    assume "1 \<le> n \<or> v = []"
    then show "\<exists>batches. batchVectors v (Some (Fin (real_of_int n))) = Some batches"
      using pos empty by blast
  qed
  with default show ?thesis by blast
qed

theorem batchVectors_returns_iff_witness:
  "(\<exists>batches. batchVectors [JStr ''a'', JStr ''b''] (Some (Fin 1)) = Some batches) \<and>
   batchVectors [JStr ''a''] (Some (Fin (- 1))) = None"
  using batchVectors_returns_iff [of "[JStr ''a'', JStr ''b'']" 1]
        batchVectors_returns_iff [of "[JStr ''a'']" "- 1"]
  by auto

text \<open>
  C10 as stated fails at a batch size that is not an integer. On the list \<^verbatim>\<open>["a"]\<close>,
  which is not empty, the batch size 0.5 is below 1 and the call returns
  \<^verbatim>\<open>[[], ["a"]]\<close>; the batch size NaN is not at least 1 and the call returns \<^verbatim>\<open>[[]]\<close>.
\<close>

theorem batchVectors_fraction_counterexample:
  "batchVectors [JStr ''a''] (Some (Fin (1 / 2))) = Some [[], [JStr ''a'']] \<and>
   batchVectors [JStr ''a''] (Some NaN) = Some [[]]"
  by (simp add: batchVectors_def batch_loop.simps below_length_def slice_def relative_index_def
      clamp_index_def trunc_def)

section \<open>Properties of the index name check\<close>

text \<open>
  What the check accepts: a string of length 1, whatever its character, or a string of
  at most 63 characters that matches the pattern.
\<close>

lemma index_name_pattern_length: "index_name_pattern s \<Longrightarrow> 2 \<le> length s"
  by (cases s rule: index_name_pattern.cases) simp_all

lemma validateIndexName_accepts_iff:
  "validateIndexName v = Inr () \<longleftrightarrow>
     (\<exists>s. v = JStr s \<and> (length s = 1 \<or> (length s \<le> 63 \<and> index_name_pattern s)))"
proof (cases v)
  case (JStr s)
  show ?thesis
  proof (cases "length s = 1")
    case True
    then show ?thesis using JStr by (auto simp: validateIndexName_def)
  next
    case False
    then have long: "s \<noteq> [] \<Longrightarrow> 1 < length s" by (cases s) auto
    show ?thesis
      using JStr False long index_name_pattern_length [of s]
      by (cases "s = []") (auto simp: validateIndexName_def)
  qed
qed (simp_all add: validateIndexName_def)

lemma validateIndexName_single_character: "validateIndexName (JStr [c]) = Inr ()"
  by (simp add: validateIndexName_accepts_iff)

text \<open>
  C3. The claim is that a single character other than a lower-case letter or digit is
  rejected. The code accepts it: the test of the pattern is skipped for a name of
  length 1. Here the name is a single hyphen.
\<close>

theorem validateIndexName_single_hyphen:
  "validateIndexName (JStr ''-'') = Inr ()"
  by (simp add: validateIndexName_def)

theorem validateIndexName_single_hyphen_witness:
  "validateIndexName (JStr ''-'') = Inr () \<and> \<not> lower_alnum (CHR ''-'') \<and> \<not> index_name_pattern ''-''"
  using validateIndexName_single_hyphen by (simp add: lower_alnum_def)

section \<open>Properties of the request executor\<close>




section \<open>Properties of the operations\<close>

text \<open>
  C8. For every answer of the service, connection config, index name and item index,
  \<^verbatim>\<open>describeIndex\<close> issues the requests, returns the value and throws the error that
  \<^verbatim>\<open>getIndex\<close> does.
\<close>

theorem describeIndex_is_getIndex:
  "describeIndex net config indexName itemIndex = getIndex net config indexName itemIndex"
  by (simp add: describeIndex_def)

text \<open>
  C2, as amended. \<^verbatim>\<open>insertVectors\<close> on the index \<^verbatim>\<open>docs-1\<close> with the vector
  \<^verbatim>\<open>{id: "v1", values: [0.1, 0.2, 0.3]}\<close> passes validation, posts the request to
  \<^verbatim>\<open>indexes/docs-1/insert\<close> and returns the result of the service. It has no parameter for
  an expected dimensionality, and the same call with the values \<^verbatim>\<open>[0.1, 0.2]\<close> does the
  same. \<^verbatim>\<open>validateVectorDimensions\<close> called with the expected dimensionality 3 accepts
  the first vector and throws \<^verbatim>\<open>Vector v1 has 2 dimensions, expected 3\<close> on the second.
\<close>

theorem insertVectors_scenario_B:
  "insertVectors (Resolved (success_envelope r)) config (JStr ''docs-1'')
     (insert_request three_values) itemIndex =
     \<lparr>requests = [post_request config ''indexes/docs-1/insert'' (insert_request three_values)],
      outcome = Inr (if truthy r then r else success_envelope r)\<rparr> \<and>
   insertVectors (Resolved (success_envelope r)) config (JStr ''docs-1'')
     (insert_request two_values) itemIndex =
     \<lparr>requests = [post_request config ''indexes/docs-1/insert'' (insert_request two_values)],
      outcome = Inr (if truthy r then r else success_envelope r)\<rparr> \<and>
   validateVectorDimensions (JArr [vector_v1 three_values]) (JNum (Fin 3)) = Inr () \<and>
   validateVectorDimensions (JArr [vector_v1 two_values]) (JNum (Fin 3)) =
     Inl (Error ''Vector v1 has 2 dimensions, expected 3'')"
proof (intro conjI)
  have ok: "validateVectorDimensions (JArr [vector_v1 vs]) JUndefined = Inr ()" for vs
    by (simp add: validateVectorDimensions_def check_vector_def vector_v1_def own_prop_def
        lacks_values_array_def isArray_def)
  show "insertVectors (Resolved (success_envelope r)) config (JStr ''docs-1'')
     (insert_request three_values) itemIndex =
     \<lparr>requests = [post_request config ''indexes/docs-1/insert'' (insert_request three_values)],
      outcome = Inr (if truthy r then r else success_envelope r)\<rparr>"
    by (simp add: insertVectors_def validate_docs_1 insert_request_def own_prop_def ok
        executeRequest_POST request_outcome_success)
  show "insertVectors (Resolved (success_envelope r)) config (JStr ''docs-1'')
     (insert_request two_values) itemIndex =
     \<lparr>requests = [post_request config ''indexes/docs-1/insert'' (insert_request two_values)],
      outcome = Inr (if truthy r then r else success_envelope r)\<rparr>"
    by (simp add: insertVectors_def validate_docs_1 insert_request_def own_prop_def ok
        executeRequest_POST request_outcome_success)
  show "validateVectorDimensions (JArr [vector_v1 three_values]) (JNum (Fin 3)) = Inr ()"
    by (simp add: validateVectorDimensions_def check_vector_def vector_v1_def own_prop_def
        lacks_values_array_def isArray_def three_values_def length_value_def)
  show "validateVectorDimensions (JArr [vector_v1 two_values]) (JNum (Fin 3)) =
     Inl (Error ''Vector v1 has 2 dimensions, expected 3'')"
    by (simp add: validateVectorDimensions_def check_vector_def vector_v1_def own_prop_def
        lacks_values_array_def isArray_def two_values_def length_value_def
        positive_to_string_def nat_to_string.simps digit_char_def dimensions_message_def)
qed

theorem insertVectors_scenario_B_witness:
  "outcome (insertVectors (Resolved (success_envelope (JObj [(''mutationId'', JStr ''m1'')])))
      example_config (JStr ''docs-1'') (insert_request three_values) 0) =
     Inr (JObj [(''mutationId'', JStr ''m1'')]) \<and>
   validateVectorDimensions (JArr [vector_v1 two_values]) (JNum (Fin 3)) =
     Inl (Error ''Vector v1 has 2 dimensions, expected 3'')"
  using insertVectors_scenario_B [of "JObj [(''mutationId'', JStr ''m1'')]" example_config 0]
  by simp

text \<open>
  C2 as stated fails: with the values \<^verbatim>\<open>[0.1, 0.2]\<close> and a service that answers with a
  mutation id, \<^verbatim>\<open>insertVectors\<close> throws nothing, issues the POST and returns the
  mutation id.
\<close>

theorem insertVectors_short_vector_counterexample:
  "outcome (insertVectors (Resolved (success_envelope (JObj [(''mutationId'', JStr ''m1'')])))
      example_config (JStr ''docs-1'') (insert_request two_values) 0) =
     Inr (JObj [(''mutationId'', JStr ''m1'')]) \<and>
   requests (insertVectors (Resolved (success_envelope (JObj [(''mutationId'', JStr ''m1'')])))
      example_config (JStr ''docs-1'') (insert_request two_values) 0) =
     [post_request example_config ''indexes/docs-1/insert'' (insert_request two_values)]"
proof -
  have ok: "validateVectorDimensions (JArr [vector_v1 two_values]) JUndefined = Inr ()"
    by (simp add: validateVectorDimensions_def check_vector_def vector_v1_def own_prop_def
        lacks_values_array_def isArray_def)
  show ?thesis
    by (simp add: insertVectors_def validate_docs_1 insert_request_def own_prop_def ok
        executeRequest_POST request_outcome_success)
qed

text \<open>
  C5, as amended. For every index name that \<^verbatim>\<open>validateIndexName\<close> accepts and every
  request object whose \<^verbatim>\<open>id\<close> is a non-empty string, \<^verbatim>\<open>queryVectorById\<close> issues one
  request: a POST to \<^verbatim>\<open>indexes/{name}/query\<close> under the account's base URL, whose body
  has the id, a string, in the field \<^verbatim>\<open>vector\<close> and every other field as the request has
  it. The operation then returns or throws what \<^verbatim>\<open>executeRequest\<close> makes of the service's
  answer. In every other case it issues no request: when \<^verbatim>\<open>validateIndexName\<close> rejects
  the index name, it throws the error of \<^verbatim>\<open>validateIndexName\<close>; when the name is accepted
  and the \<^verbatim>\<open>id\<close> of the request is not a non-empty string, it throws the error
  \<^verbatim>\<open>Vector ID is required and must be a string\<close>, or the \<^verbatim>\<open>TypeError\<close> of reading \<^verbatim>\<open>id\<close>
  on a request that is null or undefined.
\<close>

theorem queryVectorById_request:
  "(validateIndexName (JStr name) = Inr () \<longrightarrow> own_prop ps ''id'' = JStr vid \<longrightarrow> vid \<noteq> [] \<longrightarrow>
      (\<exists>body. queryVectorById net config (JStr name) (JObj ps) itemIndex =
            \<lparr>requests = [post_request config (''indexes/'' @ name @ ''/query'') (JObj body)],
             outcome = request_outcome net itemIndex\<rparr> \<and>
          map_of body ''vector'' = Some (JStr vid) \<and>
          (\<forall>k. k \<noteq> ''vector'' \<longrightarrow> map_of body k = map_of ps k))) \<and>
   (validateIndexName indexName = Inl e \<longrightarrow>
      queryVectorById net config indexName request itemIndex = \<lparr>requests = [], outcome = Inl e\<rparr>) \<and>
   (validateIndexName indexName = Inr () \<longrightarrow>
      (\<forall>s. get_prop request ''id'' = Inr (JStr s) \<longrightarrow> s = []) \<longrightarrow>
      queryVectorById net config indexName request itemIndex =
        \<lparr>requests = [],
         outcome = Inl (case get_prop request ''id'' of
                          Inl err \<Rightarrow> err
                        | Inr v \<Rightarrow> Error ''Vector ID is required and must be a string'')\<rparr>)"
proof (intro conjI impI)
  assume name: "validateIndexName (JStr name) = Inr ()"
    and vid: "own_prop ps ''id'' = JStr vid" "vid \<noteq> []"
  let ?body = "AList.update ''vector'' (JStr vid) ps"
  have "queryVectorById net config (JStr name) (JObj ps) itemIndex =
            \<lparr>requests = [post_request config (''indexes/'' @ name @ ''/query'') (JObj ?body)],
             outcome = request_outcome net itemIndex\<rparr>"
    using name vid by (simp add: queryVectorById_def spread_def executeRequest_POST)
  moreover have "map_of ?body ''vector'' = Some (JStr vid)"
    by (simp add: update_conv')
  moreover have "\<forall>k. k \<noteq> ''vector'' \<longrightarrow> map_of ?body k = map_of ps k"
    by (simp add: update_conv')
  ultimately show "\<exists>body. queryVectorById net config (JStr name) (JObj ps) itemIndex =
            \<lparr>requests = [post_request config (''indexes/'' @ name @ ''/query'') (JObj body)],
             outcome = request_outcome net itemIndex\<rparr> \<and>
          map_of body ''vector'' = Some (JStr vid) \<and>
          (\<forall>k. k \<noteq> ''vector'' \<longrightarrow> map_of body k = map_of ps k)"
    by blast
next
  assume "validateIndexName indexName = Inl e"
  then show "queryVectorById net config indexName request itemIndex =
               \<lparr>requests = [], outcome = Inl e\<rparr>"
    by (simp add: queryVectorById_def)
next
  assume name: "validateIndexName indexName = Inr ()"
    and bad: "\<forall>s. get_prop request ''id'' = Inr (JStr s) \<longrightarrow> s = []"
  show "queryVectorById net config indexName request itemIndex =
        \<lparr>requests = [],
         outcome = Inl (case get_prop request ''id'' of
                          Inl err \<Rightarrow> err
                        | Inr v \<Rightarrow> Error ''Vector ID is required and must be a string'')\<rparr>"
  proof (cases "get_prop request ''id''")
    case (Inl err)
    then show ?thesis using name by (simp add: queryVectorById_def)
  next
    case (Inr v)
    have "\<not> truthy v \<or> typeof v \<noteq> ''string''"
      using bad Inr by (cases v) auto
    then show ?thesis using name Inr by (simp add: queryVectorById_def)
  qed
qed

theorem queryVectorById_request_witness:
  "validateIndexName (JStr ''docs-1'') = Inr () \<and>
   (\<exists>body. queryVectorById (Resolved (success_envelope (JObj [(''count'', JNum (Fin 0)), (''matches'', JArr [])])))
              example_config (JStr ''docs-1'')
              (JObj [(''id'', JStr ''v1''), (''topK'', JNum (Fin 5))]) 0 =
            \<lparr>requests = [post_request example_config ''indexes/docs-1/query'' (JObj body)],
             outcome = Inr (JObj [(''count'', JNum (Fin 0)), (''matches'', JArr [])])\<rparr> \<and>
          map_of body ''vector'' = Some (JStr ''v1'') \<and>
          map_of body ''topK'' = Some (JNum (Fin 5)) \<and>
          map_of body ''id'' = Some (JStr ''v1'')) \<and>
   queryVectorById (Resolved (success_envelope JNull)) example_config (JStr ''Docs'')
     (JObj [(''id'', JStr ''v1'')]) 0 =
     \<lparr>requests = [],
      outcome = Inl (Error ''Index name must contain only lowercase letters, numbers, and hyphens, and cannot start or end with a hyphen'')\<rparr> \<and>
   queryVectorById (Resolved (success_envelope JNull)) example_config (JStr ''docs-1'')
     (JObj [(''id'', JNum (Fin 7))]) 0 =
     \<lparr>requests = [], outcome = Inl (Error ''Vector ID is required and must be a string'')\<rparr> \<and>
   queryVectorById (Resolved (success_envelope JNull)) example_config (JStr ''docs-1'') JNull 0 =
     \<lparr>requests = [], outcome = Inl (cannot_read ''null'' ''id'')\<rparr>"
proof -
  let ?net = "Resolved (success_envelope (JObj [(''count'', JNum (Fin 0)), (''matches'', JArr [])]))"
  let ?ps = "[(''id'', JStr ''v1''), (''topK'', JNum (Fin 5))]"
  have h1: "validateIndexName (JStr ''docs-1'') = Inr ()" by (rule validate_docs_1)
  have h2: "own_prop ?ps ''id'' = JStr ''v1''"
    by (simp add: own_prop_def)
  have h3: "''v1'' \<noteq> []" by simp
  have h4: "validateIndexName (JStr ''Docs'') =
              Inl (Error ''Index name must contain only lowercase letters, numbers, and hyphens, and cannot start or end with a hyphen'')"
    by (simp add: validateIndexName_def lower_alnum_def lower_alnum_hyphen_def)
  have h5: "\<forall>s. get_prop (JObj [(''id'', JNum (Fin 7))]) ''id'' = Inr (JStr s) \<longrightarrow> s = []"
    by (simp add: own_prop_def)
  have h6: "\<forall>s. get_prop JNull ''id'' = Inr (JStr s) \<longrightarrow> s = []"
    by simp
  have o: "request_outcome ?net 0 = Inr (JObj [(''count'', JNum (Fin 0)), (''matches'', JArr [])])"
    by (simp add: request_outcome_success)
  from queryVectorById_request [of "''docs-1''" ?ps "''v1''" ?net example_config 0,
      THEN conjunct1, rule_format, OF h1 h2 h3]
  obtain body where
    b: "queryVectorById ?net example_config (JStr ''docs-1'') (JObj ?ps) 0 =
            \<lparr>requests = [post_request example_config (''indexes/'' @ ''docs-1'' @ ''/query'') (JObj body)],
             outcome = request_outcome ?net 0\<rparr>"
    and v: "map_of body ''vector'' = Some (JStr ''v1'')"
    and k: "\<forall>k. k \<noteq> ''vector'' \<longrightarrow> map_of body k = map_of ?ps k"
    by blast
  have "map_of body ''topK'' = Some (JNum (Fin 5))" using k by simp
  moreover have "map_of body ''id'' = Some (JStr ''v1'')" using k by simp
  ultimately have first: "\<exists>body. queryVectorById ?net example_config (JStr ''docs-1'') (JObj ?ps) 0 =
            \<lparr>requests = [post_request example_config ''indexes/docs-1/query'' (JObj body)],
             outcome = Inr (JObj [(''count'', JNum (Fin 0)), (''matches'', JArr [])])\<rparr> \<and>
          map_of body ''vector'' = Some (JStr ''v1'') \<and>
          map_of body ''topK'' = Some (JNum (Fin 5)) \<and>
          map_of body ''id'' = Some (JStr ''v1'')"
    using b v o by auto
  have second: "queryVectorById (Resolved (success_envelope JNull)) example_config (JStr ''Docs'')
     (JObj [(''id'', JStr ''v1'')]) 0 =
     \<lparr>requests = [],
      outcome = Inl (Error ''Index name must contain only lowercase letters, numbers, and hyphens, and cannot start or end with a hyphen'')\<rparr>"
    by (rule queryVectorById_request [THEN conjunct2, THEN conjunct1, rule_format, OF h4])
  have third: "queryVectorById (Resolved (success_envelope JNull)) example_config (JStr ''docs-1'')
     (JObj [(''id'', JNum (Fin 7))]) 0 =
     \<lparr>requests = [], outcome = Inl (Error ''Vector ID is required and must be a string'')\<rparr>"
    using h1 h5
      queryVectorById_request [of "[]" "[]" "[]" "Resolved (success_envelope JNull)" example_config 0
        "JStr ''docs-1''" "Error []" "JObj [(''id'', JNum (Fin 7))]"]
    by (simp add: own_prop_def)
  have fourth: "queryVectorById (Resolved (success_envelope JNull)) example_config (JStr ''docs-1'') JNull 0 =
     \<lparr>requests = [], outcome = Inl (cannot_read ''null'' ''id'')\<rparr>"
    using h1 h6
      queryVectorById_request [of "[]" "[]" "[]" "Resolved (success_envelope JNull)" example_config 0
        "JStr ''docs-1''" "Error []" JNull]
    by simp
  show ?thesis using h1 first second third fourth by blast
qed

text \<open>
  C5 as stated fails on a request whose \<^verbatim>\<open>id\<close> is the empty string: the operation
  throws before it issues any request.
\<close>

theorem queryVectorById_empty_id_counterexample:
  "queryVectorById (Resolved (success_envelope (JObj [(''count'', JNum (Fin 0)), (''matches'', JArr [])])))
     example_config (JStr ''docs-1'') (JObj [(''id'', JStr []), (''topK'', JNum (Fin 5))]) 0 =
     \<lparr>requests = [], outcome = Inl (Error ''Vector ID is required and must be a string'')\<rparr>"
  by (simp add: queryVectorById_def validate_docs_1 own_prop_def)

section \<open>Properties of the vector check\<close>

lemma lacks_values_array_iff: "lacks_values_array (own_prop ps ''values'') \<longleftrightarrow> \<not> values_ok ps"
  by (auto simp: lacks_values_array_def values_ok_def isArray_def isFloat32Array_def
      isFloat64Array_def split: jsval.splits)









lemma number_to_string_nat:
  assumes "n < 10 ^ 21"
  shows "number_to_string (Fin (real n)) = nat_to_string n"
proof (cases "n = 0")
  case True
  then show ?thesis by (simp add: nat_to_string.simps digit_char_def)
next
  case False
  have "real n < real (10 ^ 21)" using assms by (simp only: of_nat_less_iff)
  then have "real n < 10 ^ 21" by simp
  then show ?thesis using False by (simp add: positive_to_string_def)
qed




section \<open>Properties of the formatter\<close>

lemma to_string_converts: "converts v \<Longrightarrow> to_string v = Inr (string_of v)"
  by (cases "to_string v") (simp_all add: converts_def string_of_def)

lemma format_vector_formattable:
  "formattable ps \<Longrightarrow> format_vector i (JObj ps) = Inr (canonical_vector ps)"
  by (auto simp: format_vector_def formattable_def canonical_vector_def
      lacks_values_array_iff to_string_converts Let_def split: if_splits
      simp del: to_string.simps)

lemma format_each_formattable:
  "\<forall>ps \<in> set pss. formattable ps \<Longrightarrow>
   format_each i (map JObj pss) = Inr (map canonical_vector pss)"
  by (induction pss arbitrary: i) (simp_all add: format_vector_formattable)

lemma format_each_first_failure:
  "\<forall>ps \<in> set pre. formattable ps \<Longrightarrow> format_vector (i + length pre) v = Inl e \<Longrightarrow>
   format_each i (map JObj pre @ v # post) = Inl e"
  by (induction pre arbitrary: i) (simp_all add: format_vector_formattable)

text \<open>
  C7, as amended. For every input array whose elements are objects with a truthy \<^verbatim>\<open>id\<close>
  that converts to a string, an array or typed array as \<^verbatim>\<open>values\<close> (whatever its
  elements are) and a \<^verbatim>\<open>namespace\<close> that is falsy or converts to a string,
  \<^verbatim>\<open>formatVectors\<close> returns an array of the same length whose element at each position is
  the canonical vector of the input element at that position: the \<^verbatim>\<open>id\<close> as a string, the
  \<^verbatim>\<open>values\<close> unchanged, \<^verbatim>\<open>metadata\<close> exactly when the input's is truthy and \<^verbatim>\<open>namespace\<close>,
  as a string, exactly when the input's is truthy. At the first element that is not an
  object, or has a falsy \<^verbatim>\<open>id\<close>, or has no such \<^verbatim>\<open>values\<close>, it throws an error whose
  message names the position of that element.
\<close>

theorem formatVectors_cases:
  "((\<forall>ps \<in> set pss. formattable ps) \<longrightarrow>
      (\<exists>outs. formatVectors (JArr (map JObj pss)) = Inr (JArr outs) \<and>
         length outs = length pss \<and>
         (\<forall>i < length pss. outs ! i = canonical_vector (pss ! i)))) \<and>
   ((\<forall>ps \<in> set pre. formattable ps) \<longrightarrow>
      (\<not> is_object v \<longrightarrow>
         formatVectors (JArr (map JObj pre @ v # post)) =
           Inl (Error (index_message (length pre) ''be an object''))) \<and>
      (is_object v \<and> get_prop v ''id'' = Inr vid \<and> \<not> truthy vid \<longrightarrow>
         formatVectors (JArr (map JObj pre @ v # post)) =
           Inl (Error (index_message (length pre) ''have an 'id' field''))) \<and>
      (is_object v \<and> get_prop v ''id'' = Inr vid \<and> truthy vid \<and>
       get_prop v ''values'' = Inr values \<and> lacks_values_array values \<longrightarrow>
         formatVectors (JArr (map JObj pre @ v # post)) =
           Inl (Error (index_message (length pre) ''have a 'values' array''))))"
proof (intro conjI impI)
  assume "\<forall>ps \<in> set pss. formattable ps"
  then have "formatVectors (JArr (map JObj pss)) = Inr (JArr (map canonical_vector pss))"
    by (simp add: formatVectors_def format_each_formattable)
  moreover have "length (map canonical_vector pss) = length pss" by simp
  moreover have "\<forall>i < length pss. map canonical_vector pss ! i = canonical_vector (pss ! i)"
    by simp
  ultimately show "\<exists>outs. formatVectors (JArr (map JObj pss)) = Inr (JArr outs) \<and>
         length outs = length pss \<and>
         (\<forall>i < length pss. outs ! i = canonical_vector (pss ! i))"
    by blast
next
  assume pre: "\<forall>ps \<in> set pre. formattable ps" and "\<not> is_object v"
  then have "format_vector (0 + length pre) v = Inl (Error (index_message (length pre) ''be an object''))"
    by (simp add: format_vector_def is_object_def)
  from format_each_first_failure [OF pre this]
  show "formatVectors (JArr (map JObj pre @ v # post)) =
           Inl (Error (index_message (length pre) ''be an object''))"
    by (simp add: formatVectors_def)
next
  assume pre: "\<forall>ps \<in> set pre. formattable ps"
    and v: "is_object v \<and> get_prop v ''id'' = Inr vid \<and> \<not> truthy vid"
  then have "format_vector (0 + length pre) v =
               Inl (Error (index_message (length pre) ''have an 'id' field''))"
    by (simp add: format_vector_def is_object_def)
  from format_each_first_failure [OF pre this]
  show "formatVectors (JArr (map JObj pre @ v # post)) =
           Inl (Error (index_message (length pre) ''have an 'id' field''))"
    by (simp add: formatVectors_def)
next
  assume pre: "\<forall>ps \<in> set pre. formattable ps"
    and v: "is_object v \<and> get_prop v ''id'' = Inr vid \<and> truthy vid \<and>
       get_prop v ''values'' = Inr values \<and> lacks_values_array values"
  then have "format_vector (0 + length pre) v =
               Inl (Error (index_message (length pre) ''have a 'values' array''))"
    by (simp add: format_vector_def is_object_def)
  from format_each_first_failure [OF pre this]
  show "formatVectors (JArr (map JObj pre @ v # post)) =
           Inl (Error (index_message (length pre) ''have a 'values' array''))"
    by (simp add: formatVectors_def)
qed

theorem formatVectors_cases_witness:
  "formatVectors (JArr [JObj [(''id'', JStr ''v1''), (''values'', JArr three_values),
                              (''metadata'', JObj [(''lang'', JStr ''en'')])],
                        JObj [(''id'', JNum (Fin 7)), (''values'', JFloat32Array [Fin 1, Fin 2]),
                              (''namespace'', JStr ''docs'')]]) =
     Inr (JArr [JObj [(''id'', JStr ''v1''), (''values'', JArr three_values),
                      (''metadata'', JObj [(''lang'', JStr ''en'')])],
                JObj [(''id'', JStr ''7''), (''values'', JFloat32Array [Fin 1, Fin 2]),
                      (''namespace'', JStr ''docs'')]]) \<and>
   formatVectors (JArr [vector_v1 three_values, JStr ''v2'']) =
     Inl (Error ''Vector at index 1 must be an object'') \<and>
   formatVectors (JArr [vector_v1 three_values, JObj [(''values'', JArr three_values)]]) =
     Inl (Error ''Vector at index 1 must have an 'id' field'') \<and>
   formatVectors (JArr [JObj [(''id'', JStr ''v1''), (''values'', JStr ''0.1,0.2'')]]) =
     Inl (Error ''Vector at index 0 must have a 'values' array'')"
proof -
  let ?a = "[(''id'', JStr ''v1''), (''values'', JArr three_values),
             (''metadata'', JObj [(''lang'', JStr ''en'')])]"
  let ?b = "[(''id'', JNum (Fin 7)), (''values'', JFloat32Array [Fin 1, Fin 2]),
             (''namespace'', JStr ''docs'')]"
  let ?v = "[(''id'', JStr ''v1''), (''values'', JArr three_values)]"
  have seven: "to_string (JNum (Fin 7)) = Inr ''7''"
    by (simp add: positive_to_string_def nat_to_string.simps digit_char_def)
  have fa: "formattable ?a" and fb: "formattable ?b" and fv: "formattable ?v"
    using seven by (simp_all add: formattable_def values_ok_def converts_def own_prop_def)
  have ca: "canonical_vector ?a = JObj ?a"
    by (simp add: canonical_vector_def own_prop_def string_of_def)
  have cb: "canonical_vector ?b = JObj [(''id'', JStr ''7''), (''values'', JFloat32Array [Fin 1, Fin 2]),
                      (''namespace'', JStr ''docs'')]"
    using seven by (simp add: canonical_vector_def own_prop_def string_of_def)
  have "\<forall>ps \<in> set [?a, ?b]. formattable ps" using fa fb by simp
  with formatVectors_cases [of "[?a, ?b]" "[]" JUndefined "[]" JUndefined JUndefined, THEN conjunct1]
  obtain outs where o: "formatVectors (JArr (map JObj [?a, ?b])) = Inr (JArr outs)"
    and l: "length outs = length [?a, ?b]"
    and e: "\<forall>i < length [?a, ?b]. outs ! i = canonical_vector ([?a, ?b] ! i)"
    by blast
  have "outs ! 0 = canonical_vector ?a" using e by simp
  moreover have "outs ! 1 = canonical_vector ?b" using e by simp
  moreover have "outs = [outs ! 0, outs ! 1]"
    using l by (cases outs; cases "tl outs") auto
  ultimately have outs: "outs = [canonical_vector ?a, canonical_vector ?b]" by simp
  have first: "formatVectors (JArr [JObj ?a, JObj ?b]) =
                 Inr (JArr [canonical_vector ?a, canonical_vector ?b])"
    using o outs by simp
  have second: "formatVectors (JArr (map JObj [?v] @ JStr ''v2'' # [])) =
                  Inl (Error (index_message (length [?v]) ''be an object''))"
    using formatVectors_cases [of "[]" "[?v]" "JStr ''v2''" "[]" JUndefined JUndefined] fv
    by (simp add: is_object_def)
  have third: "formatVectors (JArr (map JObj [?v] @ JObj [(''values'', JArr three_values)] # [])) =
                 Inl (Error (index_message (length [?v]) ''have an 'id' field''))"
    using formatVectors_cases [of "[]" "[?v]" "JObj [(''values'', JArr three_values)]" "[]"
        JUndefined JUndefined] fv
    by (simp add: is_object_def own_prop_def)
  have fourth: "formatVectors (JArr (map JObj [] @ JObj [(''id'', JStr ''v1''), (''values'', JStr ''0.1,0.2'')] # [])) =
                 Inl (Error (index_message (length ([] :: (string \<times> jsval) list list)) ''have a 'values' array''))"
    using formatVectors_cases [of "[]" "[]" "JObj [(''id'', JStr ''v1''), (''values'', JStr ''0.1,0.2'')]" "[]"
        "JStr ''v1''" "JStr ''0.1,0.2''"]
    by (simp add: is_object_def own_prop_def lacks_values_array_def isArray_def
        isFloat32Array_def isFloat64Array_def)
  show ?thesis
    using first second third fourth
    by (simp add: ca cb vector_v1_def index_message_def nat_to_string.simps digit_char_def)
qed

text \<open>
  C7 as stated fails twice. An element whose \<^verbatim>\<open>namespace\<close> is present and is the empty
  string comes out without a \<^verbatim>\<open>namespace\<close>; and an element whose \<^verbatim>\<open>values\<close> holds a
  string, not a number, is not rejected.
\<close>

theorem formatVectors_counterexample:
  "formatVectors (JArr [JObj [(''id'', JStr ''v1''), (''values'', JArr [JNum (Fin 0.5)]),
                              (''namespace'', JStr '''')]]) =
     Inr (JArr [JObj [(''id'', JStr ''v1''), (''values'', JArr [JNum (Fin 0.5)])]]) \<and>
   formatVectors (JArr [JObj [(''id'', JStr ''v1''), (''values'', JArr [JStr ''x''])]]) =
     Inr (JArr [JObj [(''id'', JStr ''v1''), (''values'', JArr [JStr ''x''])]])"
  by (simp add: formatVectors_def format_vector_def own_prop_def lacks_values_array_def isArray_def)

section \<open>The token\<close>

lemma same_but_token_refl [simp]: "same_but_token a a"
  by (simp add: same_but_token_def)

lemma same_but_token_executeRequest [simp]:
  "same_but_token (executeRequest net (config\<lparr>apiToken := t\<rparr>) endpoint method body itemIndex)
                  (executeRequest net config endpoint method body itemIndex)"
  by (simp add: same_but_token_def executeRequest_def without_authorization_def)

lemma same_but_token_before_request [intro!]:
  "(\<And>x. same_but_token (f x) (g x)) \<Longrightarrow> same_but_token (before_request m f) (before_request m g)"
  by (cases m) simp_all

lemma same_but_token_if [intro!]:
  "same_but_token a b \<Longrightarrow> same_but_token (if c then e else a) (if c then e else b)"
  by simp

lemma same_but_token_outcome_update [intro!]:
  "same_but_token a b \<Longrightarrow>
   same_but_token (a\<lparr>outcome := F (outcome a)\<rparr>) (b\<lparr>outcome := F (outcome b)\<rparr>)"
  by (simp add: same_but_token_def)

text \<open>
  C9, as amended. For every operation, every input and every fixed answer of the
  service (a response or a thrown value), two runs that differ only in the \<^verbatim>\<open>apiToken\<close>
  of the connection config return the same value or throw the same error, with the
  same message, and issue requests that differ only in the \<^verbatim>\<open>Authorization\<close> header.
\<close>

theorem token_noninterference:
  "same_but_token (executeRequest net (config\<lparr>apiToken := t\<rparr>) endpoint method body itemIndex)
                  (executeRequest net config endpoint method body itemIndex) \<and>
   same_but_token (createIndex net (config\<lparr>apiToken := t\<rparr>) request itemIndex)
                  (createIndex net config request itemIndex) \<and>
   same_but_token (listIndexes net (config\<lparr>apiToken := t\<rparr>) itemIndex)
                  (listIndexes net config itemIndex) \<and>
   same_but_token (deleteIndex net (config\<lparr>apiToken := t\<rparr>) indexName itemIndex)
                  (deleteIndex net config indexName itemIndex) \<and>
   same_but_token (getIndex net (config\<lparr>apiToken := t\<rparr>) indexName itemIndex)
                  (getIndex net config indexName itemIndex) \<and>
   same_but_token (getIndexInfo net (config\<lparr>apiToken := t\<rparr>) indexName itemIndex)
                  (getIndexInfo net config indexName itemIndex) \<and>
   same_but_token (insertVectors net (config\<lparr>apiToken := t\<rparr>) indexName request itemIndex)
                  (insertVectors net config indexName request itemIndex) \<and>
   same_but_token (upsertVectors net (config\<lparr>apiToken := t\<rparr>) indexName request itemIndex)
                  (upsertVectors net config indexName request itemIndex) \<and>
   same_but_token (queryVectors net (config\<lparr>apiToken := t\<rparr>) indexName request itemIndex)
                  (queryVectors net config indexName request itemIndex) \<and>
   same_but_token (queryVectorById net (config\<lparr>apiToken := t\<rparr>) indexName request itemIndex)
                  (queryVectorById net config indexName request itemIndex) \<and>
   same_but_token (getVectorsByIds net (config\<lparr>apiToken := t\<rparr>) indexName request itemIndex)
                  (getVectorsByIds net config indexName request itemIndex) \<and>
   same_but_token (deleteVectorsByIds net (config\<lparr>apiToken := t\<rparr>) indexName request itemIndex)
                  (deleteVectorsByIds net config indexName request itemIndex) \<and>
   same_but_token (createMetadataIndex net (config\<lparr>apiToken := t\<rparr>) indexName request itemIndex)
                  (createMetadataIndex net config indexName request itemIndex) \<and>
   same_but_token (deleteMetadataIndex net (config\<lparr>apiToken := t\<rparr>) indexName request itemIndex)
                  (deleteMetadataIndex net config indexName request itemIndex) \<and>
   same_but_token (listMetadataIndexes net (config\<lparr>apiToken := t\<rparr>) indexName itemIndex)
                  (listMetadataIndexes net config indexName itemIndex) \<and>
   same_but_token (listVectors net (config\<lparr>apiToken := t\<rparr>) indexName request itemIndex)
                  (listVectors net config indexName request itemIndex) \<and>
   same_but_token (describeIndex net (config\<lparr>apiToken := t\<rparr>) indexName itemIndex)
                  (describeIndex net config indexName itemIndex)"
proof (intro conjI)
  show "same_but_token (executeRequest net (config\<lparr>apiToken := t\<rparr>) endpoint method body itemIndex)
                  (executeRequest net config endpoint method body itemIndex)"
    by simp
  show "same_but_token (createIndex net (config\<lparr>apiToken := t\<rparr>) request itemIndex)
                  (createIndex net config request itemIndex)"
    unfolding createIndex_def by (intro same_but_token_before_request same_but_token_if) simp
  show "same_but_token (listIndexes net (config\<lparr>apiToken := t\<rparr>) itemIndex)
                  (listIndexes net config itemIndex)"
    unfolding listIndexes_def Let_def by (intro same_but_token_outcome_update) simp
  show "same_but_token (deleteIndex net (config\<lparr>apiToken := t\<rparr>) indexName itemIndex)
                  (deleteIndex net config indexName itemIndex)"
    unfolding deleteIndex_def Let_def
    by (intro same_but_token_before_request same_but_token_outcome_update) simp
  show "same_but_token (getIndex net (config\<lparr>apiToken := t\<rparr>) indexName itemIndex)
                  (getIndex net config indexName itemIndex)"
    unfolding getIndex_def by (intro same_but_token_before_request) simp
  then show "same_but_token (describeIndex net (config\<lparr>apiToken := t\<rparr>) indexName itemIndex)
                  (describeIndex net config indexName itemIndex)"
    by (simp add: describeIndex_def)
  show "same_but_token (getIndexInfo net (config\<lparr>apiToken := t\<rparr>) indexName itemIndex)
                  (getIndexInfo net config indexName itemIndex)"
    unfolding getIndexInfo_def by (intro same_but_token_before_request) simp
  show "same_but_token (insertVectors net (config\<lparr>apiToken := t\<rparr>) indexName request itemIndex)
                  (insertVectors net config indexName request itemIndex)"
    unfolding insertVectors_def by (intro same_but_token_before_request) simp
  show "same_but_token (upsertVectors net (config\<lparr>apiToken := t\<rparr>) indexName request itemIndex)
                  (upsertVectors net config indexName request itemIndex)"
    unfolding upsertVectors_def by (intro same_but_token_before_request) simp
  show "same_but_token (queryVectors net (config\<lparr>apiToken := t\<rparr>) indexName request itemIndex)
                  (queryVectors net config indexName request itemIndex)"
    unfolding queryVectors_def
    by (intro same_but_token_before_request same_but_token_if) simp
  show "same_but_token (queryVectorById net (config\<lparr>apiToken := t\<rparr>) indexName request itemIndex)
                  (queryVectorById net config indexName request itemIndex)"
    unfolding queryVectorById_def
    by (intro same_but_token_before_request same_but_token_if) simp
  show "same_but_token (getVectorsByIds net (config\<lparr>apiToken := t\<rparr>) indexName request itemIndex)
                  (getVectorsByIds net config indexName request itemIndex)"
    unfolding getVectorsByIds_def
    by (intro same_but_token_before_request same_but_token_if) simp
  show "same_but_token (deleteVectorsByIds net (config\<lparr>apiToken := t\<rparr>) indexName request itemIndex)
                  (deleteVectorsByIds net config indexName request itemIndex)"
    unfolding deleteVectorsByIds_def
    by (intro same_but_token_before_request same_but_token_if) simp
  show "same_but_token (createMetadataIndex net (config\<lparr>apiToken := t\<rparr>) indexName request itemIndex)
                  (createMetadataIndex net config indexName request itemIndex)"
    unfolding createMetadataIndex_def
    by (intro same_but_token_before_request same_but_token_if) simp
  show "same_but_token (deleteMetadataIndex net (config\<lparr>apiToken := t\<rparr>) indexName request itemIndex)
                  (deleteMetadataIndex net config indexName request itemIndex)"
    unfolding deleteMetadataIndex_def
    by (intro same_but_token_before_request same_but_token_if) simp
  show "same_but_token (listMetadataIndexes net (config\<lparr>apiToken := t\<rparr>) indexName itemIndex)
                  (listMetadataIndexes net config indexName itemIndex)"
    unfolding listMetadataIndexes_def by (intro same_but_token_before_request) simp
  show "same_but_token (listVectors net (config\<lparr>apiToken := t\<rparr>) indexName request itemIndex)
                  (listVectors net config indexName request itemIndex)"
    unfolding listVectors_def Let_def by (intro same_but_token_before_request) simp
qed

theorem token_noninterference_witness:
  "outcome (getIndex (Resolved scenario_C) (example_config\<lparr>apiToken := ''token-2''\<rparr>)
             (JStr ''missing'') 0) =
     outcome (getIndex (Resolved scenario_C) example_config (JStr ''missing'') 0) \<and>
   outcome (queryVectors (Rejected (ThrownValue (JObj [(''message'', JStr ''socket hang up'')])))
             (example_config\<lparr>apiToken := ''token-2''\<rparr>) (JStr ''docs-1'')
             (JObj [(''vector'', JArr three_values)]) 0) =
     outcome (queryVectors (Rejected (ThrownValue (JObj [(''message'', JStr ''socket hang up'')])))
             example_config (JStr ''docs-1'') (JObj [(''vector'', JArr three_values)]) 0) \<and>
   map without_authorization
     (requests (getIndex (Resolved scenario_C) (example_config\<lparr>apiToken := ''token-2''\<rparr>)
                  (JStr ''missing'') 0)) =
     map without_authorization
       (requests (getIndex (Resolved scenario_C) example_config (JStr ''missing'') 0))"
  using token_noninterference [of "Resolved scenario_C" "''token-2''" example_config "[]" "[]"
          JUndefined 0 JUndefined "JStr ''missing''"]
        token_noninterference [of "Rejected (ThrownValue (JObj [(''message'', JStr ''socket hang up'')]))"
          "''token-2''" example_config "[]" "[]" JUndefined 0
          "JObj [(''vector'', JArr three_values)]" "JStr ''docs-1''"]
  by (simp add: same_but_token_def)

text \<open>
  C9 as stated fails in its first half: nothing removes the text of the token from a
  message. In the first run the HTTP helper throws a \<^verbatim>\<open>NodeOperationError\<close> whose message
  holds the token, and \<^verbatim>\<open>getIndex\<close> throws that error, with that message, again. In the
  second run the service names the token in the message of its error, and the text
  from which \<^verbatim>\<open>getIndex\<close> constructs its error holds the token.
\<close>

theorem token_echoed_counterexample:
  "apiToken example_config = ''token-1'' \<and>
   outcome (getIndex
      (Rejected (ThrownError (NodeOperationError ''Authorization failed for token-1'' 0)))
      example_config (JStr ''docs-1'') 0) =
     Inl (NodeOperationError ''Authorization failed for token-1'' 0) \<and>
   outcome (getIndex
      (Resolved (JObj [(''success'', JBool False),
                       (''errors'', JArr [JObj [(''code'', JNum (Fin 10000)),
                                                (''message'', JStr ''Invalid API token token-1'')]])]))
      example_config (JStr ''docs-1'') 0) =
     Inl (NewNodeOperationError ''Cloudflare API error: Invalid API token token-1'' 0)"
  by (simp add: example_config_def getIndex_def validate_docs_1 request_outcome_def
      handle_response_def own_prop_def map_messages_join_def)

end
